theory Spec2Isabelle
  imports Main "HOL-Library.Sublist"
begin

section \<open>JavaScript values and strings\<close>

text \<open>
  Strings are byte strings: an ASCII character is one \<open>char\<close>, a character beyond ASCII
  is the sequence of its UTF-8 bytes. \<open>toLowerCase\<close> folds the letters \<open>A\<close> to \<open>Z\<close>; the
  program compares lowered texts with ASCII texts only (\<open>quota\<close>, \<open>rate limit\<close>, the
  image extensions), none of which holds a letter that a character beyond ASCII is
  lowered to without a combining mark after it.

  A thrown value is any JavaScript value: a primitive, an \<open>Error\<close> object (its name and
  its message), or another object (the text its \<open>toString\<close> yields and its \<open>message\<close>
  property, when it has one). Numbers are the integers and \<open>NaN\<close>.
\<close>

datatype js_value =
    JUndefined
  | JNull
  | JBool bool
  | JNumber int
  | JNaN
  | JString string
  | JError string string
  | JObject string "string option"

definition digit_char :: "nat \<Rightarrow> char" where
  "digit_char d = ''0123456789'' ! d"

fun show_nat :: "nat \<Rightarrow> string" where
  "show_nat n = (if n < 10 then [digit_char n] else show_nat (n div 10) @ [digit_char (n mod 10)])"

declare show_nat.simps [simp del]

definition show_int :: "int \<Rightarrow> string" where
  "show_int i = (if i < 0 then CHR ''-'' # show_nat (nat (- i)) else show_nat (nat i))"

text \<open>\<open>!v\<close> is \<open>\<not> js_truthy v\<close>: the falsy values are \<open>undefined\<close>, \<open>null\<close>, \<open>false\<close>,
  \<open>0\<close>, \<open>NaN\<close> and the empty string.\<close>

fun js_truthy :: "js_value \<Rightarrow> bool" where
  "js_truthy JUndefined = False"
| "js_truthy JNull = False"
| "js_truthy (JBool b) = b"
| "js_truthy (JNumber n) = (n \<noteq> 0)"
| "js_truthy JNaN = False"
| "js_truthy (JString s) = (s \<noteq> [])"
| "js_truthy (JError name msg) = True"
| "js_truthy (JObject str msg) = True"

text \<open>\<open>String(v)\<close>. For an \<open>Error\<close> object this is \<open>Error.prototype.toString\<close>: the name,
  the message, or \<open>name: message\<close> when neither is empty.\<close>

fun js_String :: "js_value \<Rightarrow> string" where
  "js_String JUndefined = ''undefined''"
| "js_String JNull = ''null''"
| "js_String (JBool b) = (if b then ''true'' else ''false'')"
| "js_String (JNumber n) = show_int n"
| "js_String JNaN = ''NaN''"
| "js_String (JString s) = s"
| "js_String (JError name msg) =
     (if name = [] then msg else if msg = [] then name else name @ '': '' @ msg)"
| "js_String (JObject str msg) = str"

text \<open>\<open>new Error(msg)\<close>.\<close>

definition new_Error :: "string \<Rightarrow> js_value" where
  "new_Error msg = JError ''Error'' msg"

text \<open>The \<open>message\<close> property of a caught value (\<open>undefined\<close> for a primitive).\<close>

fun js_message :: "js_value \<Rightarrow> string option" where
  "js_message (JError name msg) = Some msg"
| "js_message (JObject str msg) = msg"
| "js_message v = None"

text \<open>A \<open>string | undefined | null\<close> value in a condition: truthy when present and not empty.\<close>

fun truthy_str :: "string option \<Rightarrow> bool" where
  "truthy_str None = False"
| "truthy_str (Some s) = (s \<noteq> [])"

text \<open>\<open>s ?? ""\<close>; also the string itself where the program has tested that it is there.\<close>

fun or_empty :: "string option \<Rightarrow> string" where
  "or_empty None = []"
| "or_empty (Some s) = s"

text \<open>A \<open>string | undefined\<close> value inside a template literal.\<close>

fun template_str :: "string option \<Rightarrow> string" where
  "template_str None = ''undefined''"
| "template_str (Some s) = s"

text \<open>\<open>s.includes(searchString)\<close>: \<open>searchString\<close> occurs at some position of \<open>s\<close>.\<close>

fun js_includes :: "string \<Rightarrow> string \<Rightarrow> bool" where
  "js_includes [] searchString = (searchString = [])"
| "js_includes (c # cs) searchString =
     (prefix searchString (c # cs) \<or> js_includes cs searchString)"

definition startsWith :: "string \<Rightarrow> string \<Rightarrow> bool" where
  "startsWith s searchString = prefix searchString s"

definition lower_char :: "char \<Rightarrow> char" where
  "lower_char c =
     (case map_of (zip ''ABCDEFGHIJKLMNOPQRSTUVWXYZ'' ''abcdefghijklmnopqrstuvwxyz'') c of
        Some l \<Rightarrow> l
      | None \<Rightarrow> c)"

definition toLowerCase :: "string \<Rightarrow> string" where
  "toLowerCase s = map lower_char s"

text \<open>\<open>s.trim()\<close> removes the white space and line terminators of ECMAScript from both
  ends: the six ASCII ones and, as UTF-8 byte sequences, U+00A0, U+1680, U+2000 to
  U+200A, U+2028, U+2029, U+202F, U+205F, U+3000 and U+FEFF.\<close>

definition white_space :: "string list" where
  "white_space =
     [[CHR 0x09], [CHR 0x0A], [CHR 0x0B], [CHR 0x0C], [CHR 0x0D], [CHR 0x20],
      [CHR 0xC2, CHR 0xA0], [CHR 0xE1, CHR 0x9A, CHR 0x80],
      [CHR 0xE2, CHR 0x80, CHR 0x80], [CHR 0xE2, CHR 0x80, CHR 0x81],
      [CHR 0xE2, CHR 0x80, CHR 0x82], [CHR 0xE2, CHR 0x80, CHR 0x83],
      [CHR 0xE2, CHR 0x80, CHR 0x84], [CHR 0xE2, CHR 0x80, CHR 0x85],
      [CHR 0xE2, CHR 0x80, CHR 0x86], [CHR 0xE2, CHR 0x80, CHR 0x87],
      [CHR 0xE2, CHR 0x80, CHR 0x88], [CHR 0xE2, CHR 0x80, CHR 0x89],
      [CHR 0xE2, CHR 0x80, CHR 0x8A], [CHR 0xE2, CHR 0x80, CHR 0xA8],
      [CHR 0xE2, CHR 0x80, CHR 0xA9], [CHR 0xE2, CHR 0x80, CHR 0xAF],
      [CHR 0xE2, CHR 0x81, CHR 0x9F], [CHR 0xE3, CHR 0x80, CHR 0x80],
      [CHR 0xEF, CHR 0xBB, CHR 0xBF]]"

fun strip_one :: "string list \<Rightarrow> string \<Rightarrow> string option" where
  "strip_one [] s = None"
| "strip_one (ws # wss) s =
     (if ws \<noteq> [] \<and> prefix ws s then Some (drop (length ws) s) else strip_one wss s)"

function strip_all :: "string list \<Rightarrow> string \<Rightarrow> string" where
  "strip_all wss s = (case strip_one wss s of None \<Rightarrow> s | Some s' \<Rightarrow> strip_all wss s')"
  by pat_completeness auto
termination
proof (relation "measure (\<lambda>(wss, s). length s)")
  show "wf (measure (\<lambda>(wss :: string list, s :: string). length s))"
    by simp
next
  fix wss :: "string list" and s s' :: string
  assume "strip_one wss s = Some s'"
  then have "length s' < length s"
    by (induction wss) (auto simp: prefix_def split: if_splits)
  then show "((wss, s'), (wss, s)) \<in> measure (\<lambda>(wss, s). length s)"
    by simp
qed

declare strip_all.simps [simp del]

definition trim :: "string \<Rightarrow> string" where
  "trim s = rev (strip_all (map rev white_space) (rev (strip_all white_space s)))"

section \<open>The outside world\<close>

text \<open>
  Every call that leaves the program (an HTTP request, a file-system call, a call of the
  platform API or of a module of the repository that is not among the sources) is
  recorded as an event, in order. The world also holds the one piece of module-level
  state of the program, the set \<open>sentTypingIndicators\<close>.
\<close>

type_synonym buffer = string

datatype json =
    JsonString string
  | JsonBool bool
  | JsonArray "json list"
  | JsonObject "(string \<times> json) list"

datatype event =
    SendMediaFeishu string string
  | UploadImageFeishu buffer
  | HttpPostJson string json
  | HttpPostForm string "(string \<times> string) list"
  | HttpGet string
  | FsExistsSync string
  | FsReadFileSync string
  | ReactionCreate string string
  | ReactionDelete string string
  | SendMessageWithFallback string string
  | SendMediaWithFallback string string

record world =
  trace :: "event list"
  sentTypingIndicators :: "string set"

text \<open>An asynchronous function of the program is a function of the world that returns
  the value it resolves to (\<open>Inr\<close>) or the value it throws (\<open>Inl\<close>), and the world after.\<close>

type_synonym 'a io = "world \<Rightarrow> (js_value + 'a) \<times> world"

definition io_return :: "'a \<Rightarrow> 'a io" where
  "io_return x = (\<lambda>w. (Inr x, w))"

definition io_throw :: "js_value \<Rightarrow> 'a io" where
  "io_throw e = (\<lambda>w. (Inl e, w))"

definition io_bind :: "'a io \<Rightarrow> ('a \<Rightarrow> 'b io) \<Rightarrow> 'b io" where
  "io_bind m f = (\<lambda>w. case m w of (Inl e, w') \<Rightarrow> (Inl e, w') | (Inr x, w') \<Rightarrow> f x w')"

text \<open>\<open>try { m } catch (e) { handler e }\<close>, where the \<open>try\<close> block ends in \<open>return\<close>.\<close>

definition io_catch :: "'a io \<Rightarrow> (js_value \<Rightarrow> 'a io) \<Rightarrow> 'a io" where
  "io_catch m handler =
     (\<lambda>w. case m w of (Inl e, w') \<Rightarrow> handler e w' | (Inr x, w') \<Rightarrow> (Inr x, w'))"

text \<open>A call that leaves the program: the event is recorded, and the outside answers
  from everything that has happened so far, this call included.\<close>

definition io_call :: "event \<Rightarrow> (event list \<Rightarrow> js_value + 'a) \<Rightarrow> 'a io" where
  "io_call ev answer =
     (\<lambda>w. let w' = w\<lparr>trace := trace w @ [ev]\<rparr> in (answer (trace w'), w'))"

text \<open>An HTTP response as the program reads it: \<open>ok\<close>, \<open>status\<close>, \<open>statusText\<close>, what
  \<open>text()\<close> or \<open>arrayBuffer()\<close> resolves to, and what \<open>json()\<close> resolves to, read as a
  \<open>WebhookResponse\<close> (its \<open>code\<close> and \<open>msg\<close> properties, \<open>undefined\<close> when absent).\<close>

record WebhookResponse =
  wr_code :: js_value
  wr_msg :: js_value

record http_response =
  resp_ok :: bool
  resp_status :: nat
  resp_statusText :: string
  resp_text :: "js_value + string"
  resp_json :: "js_value + WebhookResponse"

definition of_result :: "js_value + 'a \<Rightarrow> 'a io" where
  "of_result r = (case r of Inl e \<Rightarrow> io_throw e | Inr x \<Rightarrow> io_return x)"

text \<open>Configuration and results. Only \<open>cfg.channels?.feishu\<close> is read from the host's
  configuration; the group lookup itself is \<open>resolveFeishuGroupConfig\<close> of
  \<open>policy.js\<close>.\<close>

record FeishuGroupConfig =
  gc_webhookUrl :: "string option"

record FeishuConfig =
  groups :: "(string \<times> FeishuGroupConfig) list"

record ClawdbotConfig =
  channels_feishu :: "FeishuConfig option"

record FeishuSendResult =
  messageId :: string
  chatId :: string

type_synonym MentionTarget = string

text \<open>
  The collaborators, which are not among the sources and are parameters of the model:
  the pure functions \<open>normalizeFeishuTarget\<close> (targets.js), \<open>resolveFeishuGroupConfig\<close>
  (policy.js) and \<open>buildMentionedCardContent\<close> (mention.js), the environment value
  \<open>process.env.HOME\<close>, and the answers of the outside world: \<open>fetch\<close>, \<open>fs.existsSync\<close>,
  \<open>fs.readFileSync\<close>, \<open>sendMediaFeishu\<close> and \<open>uploadImageFeishu\<close> (media.js), the
  reaction calls of the platform client, and \<open>sendMessageFeishuWithFallback\<close> and
  \<open>sendMediaFeishuWithFallback\<close> as \<open>outbound.ts\<close> imports them from send.js.

  Modelled from the spec: \<open>createFeishuClient\<close> (client.js) and \<open>getFeishuRuntime\<close>
  (runtime.js), which are not among the sources, hand out the client and the runtime
  on which the calls and the logging are made. The specification names the failures of
  the calls of the client and none of its construction, so the two functions always
  return; logging is not modelled.
\<close>

record env =
  ext_HOME :: "string option"
  ext_normalizeFeishuTarget :: "string \<Rightarrow> string option"
  ext_resolveFeishuGroupConfig :: "FeishuConfig \<Rightarrow> string \<Rightarrow> FeishuGroupConfig option"
  ext_buildMentionedCardContent :: "MentionTarget list \<Rightarrow> string \<Rightarrow> string"
  ext_fetch :: "event list \<Rightarrow> js_value + http_response"
  ext_existsSync :: "event list \<Rightarrow> bool"
  ext_readFileSync :: "event list \<Rightarrow> js_value + buffer"
  ext_sendMediaFeishu :: "event list \<Rightarrow> js_value + FeishuSendResult"
  ext_uploadImageFeishu :: "event list \<Rightarrow> js_value + string"
  ext_reaction_create :: "event list \<Rightarrow> js_value + string option"
  ext_reaction_delete :: "event list \<Rightarrow> js_value + unit"
  ext_sendMessageWithFallback :: "event list \<Rightarrow> js_value + FeishuSendResult"
  ext_sendMediaWithFallback :: "event list \<Rightarrow> js_value + FeishuSendResult"

text \<open>\<open>resolveFeishuGroupConfig({ cfg, groupId })?.webhookUrl\<close>.\<close>

definition resolved_webhookUrl :: "env \<Rightarrow> FeishuConfig \<Rightarrow> string \<Rightarrow> string option" where
  "resolved_webhookUrl env feishuCfg groupId =
     (case ext_resolveFeishuGroupConfig env feishuCfg groupId of
        None \<Rightarrow> None
      | Some groupConfig \<Rightarrow> gc_webhookUrl groupConfig)"

section \<open>Quota classifier (webhook.ts)\<close>

definition isQuotaError :: "js_value \<Rightarrow> bool" where
  "isQuotaError error =
     (if \<not> js_truthy error then False
      else let errorStr = js_String error in
        if js_includes errorStr ''429'' then True
        else if js_includes errorStr ''99991403'' then True
        else if js_includes (toLowerCase errorStr) ''quota''
                \<or> js_includes (toLowerCase errorStr) ''rate limit'' then True
        else False)"

section \<open>Webhook sender (webhook.ts)\<close>

text \<open>The parameter object as the callers build it: the orchestrator also passes an
  \<open>imageKey\<close> property, which the type \<open>SendWebhookParams\<close> does not declare.\<close>

record SendWebhookParams =
  wp_webhookUrl :: string
  wp_text :: string
  wp_mentions :: "MentionTarget list option"
  wp_imageKey :: "string option"

definition webhook_payload :: "string \<Rightarrow> json" where
  "webhook_payload content =
     JsonObject
       [(''msg_type'', JsonString ''interactive''),
        (''card'', JsonObject
           [(''config'', JsonObject [(''wide_screen_mode'', JsonBool True)]),
            (''elements'', JsonArray
               [JsonObject [(''tag'', JsonString ''markdown''),
                            (''content'', JsonString content)]])])]"

definition card_content :: "env \<Rightarrow> SendWebhookParams \<Rightarrow> string" where
  "card_content env params =
     (case wp_mentions params of
        None \<Rightarrow> wp_text params
      | Some mentions \<Rightarrow>
          if length mentions > 0
          then ext_buildMentionedCardContent env mentions (wp_text params)
          else wp_text params)"

definition sendViaWebhook :: "env \<Rightarrow> SendWebhookParams \<Rightarrow> unit io" where
  "sendViaWebhook env params =
     (let content = card_content env params;
          payload = webhook_payload content
      in io_bind (io_call (HttpPostJson (wp_webhookUrl params) payload) (ext_fetch env))
        (\<lambda>response.
           if \<not> resp_ok response
           then io_throw (new_Error (''Webhook request failed: ''
                  @ show_nat (resp_status response) @ '' '' @ resp_statusText response))
           else io_bind (of_result (resp_json response))
             (\<lambda>result.
                if wr_code result \<noteq> JNumber 0
                then io_throw (new_Error (''Webhook send failed: ''
                       @ (if js_truthy (wr_msg result) then js_String (wr_msg result)
                          else ''code '' @ js_String (wr_code result))))
                else io_return ())))"

section \<open>Image host multiplexer (image-host.ts)\<close>

record ImageHostUploadResult =
  url :: string
  deleteUrl :: "string option"

definition uploadToCatbox :: "env \<Rightarrow> buffer \<Rightarrow> ImageHostUploadResult io" where
  "uploadToCatbox env buffer =
     io_bind (io_call (HttpPostForm ''https://catbox.moe/user/api.php''
                         [(''reqtype'', ''fileupload''), (''fileToUpload'', buffer)])
                (ext_fetch env))
       (\<lambda>response.
          if \<not> resp_ok response
          then io_bind (of_result (resp_text response))
                 (\<lambda>text. io_throw (new_Error (''catbox upload failed: ''
                            @ show_nat (resp_status response) @ '' - '' @ text)))
          else io_bind (of_result (resp_text response))
                 (\<lambda>url. if url \<noteq> [] \<and> startsWith url ''https://''
                        then io_return \<lparr>url = url, deleteUrl = None\<rparr>
                        else io_throw (new_Error
                               (''catbox upload failed: invalid response - '' @ url))))"

definition uploadTo0x0 :: "env \<Rightarrow> buffer \<Rightarrow> ImageHostUploadResult io" where
  "uploadTo0x0 env buffer =
     io_bind (io_call (HttpPostForm ''https://0x0.st'' [(''file'', buffer)]) (ext_fetch env))
       (\<lambda>response.
          if \<not> resp_ok response
          then io_bind (of_result (resp_text response))
                 (\<lambda>text. io_throw (new_Error (''0x0.st upload failed: ''
                            @ show_nat (resp_status response) @ '' - '' @ text)))
          else io_bind (of_result (resp_text response))
                 (\<lambda>url. if url \<noteq> [] \<and> startsWith (trim url) ''https://''
                        then io_return \<lparr>url = trim url, deleteUrl = None\<rparr>
                        else io_throw (new_Error
                               (''0x0.st upload failed: invalid response - '' @ url))))"

text \<open>The loop over \<open>services\<close>, with \<open>lastError\<close> carried along; the \<open>throw\<close> after the
  loop is the case of the empty list.\<close>

fun try_services ::
  "env \<Rightarrow> buffer \<Rightarrow> (string \<times> (env \<Rightarrow> buffer \<Rightarrow> ImageHostUploadResult io)) list
     \<Rightarrow> js_value option \<Rightarrow> ImageHostUploadResult io" where
  "try_services env buffer [] lastError =
     io_throw (new_Error (''All image hosting services failed. Last error: ''
       @ template_str (case lastError of None \<Rightarrow> None | Some e \<Rightarrow> js_message e)))"
| "try_services env buffer (service # rest) lastError =
     io_catch (snd service env buffer)
       (\<lambda>error. try_services env buffer rest (Some error))"

definition services :: "(string \<times> (env \<Rightarrow> buffer \<Rightarrow> ImageHostUploadResult io)) list" where
  "services = [(''catbox'', uploadToCatbox), (''0x0.st'', uploadTo0x0)]"

definition uploadImageToHost :: "env \<Rightarrow> buffer \<Rightarrow> ImageHostUploadResult io" where
  "uploadImageToHost env buffer = try_services env buffer services None"

section \<open>Media delivery orchestrator (send-media-fallback.ts)\<close>

text \<open>
  \<open>path.extname\<close> of the Node.js library (POSIX flavour), after its documentation: the
  extension runs from the last dot of the last segment of the path to the end of that
  segment; trailing slashes are skipped; it is empty when the segment has no dot, when
  nothing precedes the last dot (\<open>.index\<close>) and when the segment is \<open>..\<close>.
\<close>

definition path_extname :: "string \<Rightarrow> string" where
  "path_extname p =
     (let r = dropWhile (\<lambda>c. c = CHR ''/'') (rev p);
          base = rev (takeWhile (\<lambda>c. c \<noteq> CHR ''/'') r)
      in if CHR ''.'' \<notin> set base then []
         else let ext = rev (takeWhile (\<lambda>c. c \<noteq> CHR ''.'') (rev base));
                  stem = take (length base - length ext - 1) base
              in if stem = [] \<or> base = ''..'' then [] else CHR ''.'' # ext)"

text \<open>\<open>s.replace(pattern, replacement)\<close> with a string pattern: the first occurrence is
  replaced; in the replacement, \<open>$$\<close> stands for a dollar sign, \<open>$&\<close> for the matched
  text, and \<open>$\<close> followed by a backquote or a quote for the text before or after it.\<close>

fun split_at_first :: "string \<Rightarrow> string \<Rightarrow> (string \<times> string) option" where
  "split_at_first pat [] = (if pat = [] then Some ([], []) else None)"
| "split_at_first pat (c # cs) =
     (if prefix pat (c # cs) then Some ([], drop (length pat) (c # cs))
      else case split_at_first pat cs of
             None \<Rightarrow> None
           | Some (before, after) \<Rightarrow> Some (c # before, after))"

fun get_substitution :: "string \<Rightarrow> string \<Rightarrow> string \<Rightarrow> string \<Rightarrow> string" where
  "get_substitution matched before after [] = []"
| "get_substitution matched before after [c] = [c]"
| "get_substitution matched before after (c # d # r) =
     (if c = CHR ''$'' \<and> d = CHR ''$'' then CHR ''$'' # get_substitution matched before after r
      else if c = CHR ''$'' \<and> d = CHR ''&'' then matched @ get_substitution matched before after r
      else if c = CHR ''$'' \<and> d = CHR 0x60 then before @ get_substitution matched before after r
      else if c = CHR ''$'' \<and> d = CHR 0x27 then after @ get_substitution matched before after r
      else c # get_substitution matched before after (d # r))"

definition js_replace :: "string \<Rightarrow> string \<Rightarrow> string \<Rightarrow> string" where
  "js_replace s pat replacement =
     (case split_at_first pat s of
        None \<Rightarrow> s
      | Some (before, after) \<Rightarrow>
          before @ get_substitution pat before after replacement @ after)"

text \<open>The regular expression \<open>/^[a-zA-Z]:/\<close>.\<close>

definition is_ascii_letter :: "char \<Rightarrow> bool" where
  "is_ascii_letter c =
     (c \<in> set ''abcdefghijklmnopqrstuvwxyz'' \<or> c \<in> set ''ABCDEFGHIJKLMNOPQRSTUVWXYZ'')"

fun drive_letter :: "string \<Rightarrow> bool" where
  "drive_letter (c # d # r) = (is_ascii_letter c \<and> d = CHR '':'')"
| "drive_letter s = False"

text \<open>The texts of the fallback messages, as the bytes of the literals in the source
  file: \<open>link_prefix\<close> (lines 66, 169 and 192), \<open>host_link_prefix\<close> (line 163) and
  \<open>limited_prefix\<close> (line 166, with its two line feeds).\<close>

definition link_prefix :: string where
  "link_prefix =
     [CHR 0xEF, CHR 0xA3, CHR 0xBF, CHR 0xC3, CHR 0xBC, CHR 0xC3, CHR 0xAC,
      CHR 0xC3, CHR 0xA9, CHR 0x20]"

definition host_link_prefix :: string where
  "host_link_prefix =
     [CHR 0xEF, CHR 0xA3, CHR 0xBF, CHR 0xC3, CHR 0xBC, CHR 0xC3, CHR 0xAC,
      CHR 0xE2, CHR 0x88, CHR 0x91, CHR 0x20, CHR 0xC3, CHR 0x82, CHR 0xC3,
      CHR 0xB5, CHR 0xC3, CHR 0xA6, CHR 0xC3, CHR 0x81, CHR 0xC3, CHR 0xA2,
      CHR 0xC3, CHR 0xA1, CHR 0xC3, CHR 0x88, CHR 0xC3, CHR 0xAC, CHR 0xC3,
      CHR 0xA6, CHR 0xC3, CHR 0x8A, CHR 0xC3, CHR 0xA9, CHR 0xE2, CHR 0x80,
      CHR 0xA2, CHR 0xC3, CHR 0x94, CHR 0xC2, CHR 0xBA, CHR 0xC3, CHR 0xB6]"

definition limited_prefix :: string where
  "limited_prefix =
     [CHR 0xE2, CHR 0x80, CHR 0x9A, CHR 0xC3, CHR 0xB6, CHR 0xE2, CHR 0x80,
      CHR 0xA0, CHR 0xC3, CHR 0x94, CHR 0xE2, CHR 0x88, CHR 0x8F, CHR 0xC3,
      CHR 0xA8, CHR 0x20, CHR 0xC3, CHR 0x82, CHR 0xC3, CHR 0xB5, CHR 0xC3,
      CHR 0xA6, CHR 0xC3, CHR 0x81, CHR 0xC3, CHR 0xA2, CHR 0xC3, CHR 0xA1,
      CHR 0xE2, CHR 0x80, CHR 0xB0, CHR 0xE2, CHR 0x88, CHR 0x8F, CHR 0xC3,
      CHR 0xA4, CHR 0xE2, CHR 0x80, CHR 0xB0, CHR 0xC2, CHR 0xBA, CHR 0xE2,
      CHR 0x80, CHR 0xA0, CHR 0xC3, CHR 0x82, CHR 0xC3, CHR 0xA8, CHR 0xC3,
      CHR 0xB3, CHR 0xC3, CHR 0x88, CHR 0xC3, CHR 0xB4, CHR 0xC3, CHR 0xAA,
      CHR 0xC3, CHR 0x94, CHR 0xC2, CHR 0xBA, CHR 0xC3, CHR 0xA5, CHR 0xC3,
      CHR 0x8A, CHR 0xC3, CHR 0xB6, CHR 0xC3, CHR 0x87, CHR 0xC3, CHR 0x8A,
      CHR 0xC3, CHR 0xB3, CHR 0xE2, CHR 0x88, CHR 0x82, CHR 0xC3, CHR 0x8A,
      CHR 0xC3, CHR 0xB3, CHR 0xE2, CHR 0x80, CHR 0xA0, CHR 0xC3, CHR 0x8A,
      CHR 0xE2, CHR 0x89, CHR 0xA5, CHR 0xC3, CHR 0xAF, CHR 0xC3, CHR 0x82,
      CHR 0xC3, CHR 0xA8, CHR 0xC3, CHR 0xAB, CHR 0xC3, CHR 0x88, CHR 0xC3,
      CHR 0x84, CHR 0xC3, CHR 0x85, CHR 0xC3, CHR 0x82, CHR 0xC3, CHR 0xB5,
      CHR 0xC3, CHR 0xA6, CHR 0xC3, CHR 0x81, CHR 0xC3, CHR 0xA2, CHR 0xC3,
      CHR 0xA1, CHR 0x0A, CHR 0x0A, CHR 0xC3, CHR 0x82, CHR 0xC3, CHR 0xB5,
      CHR 0xC3, CHR 0xA6, CHR 0xC3, CHR 0x81, CHR 0xC3, CHR 0xA2, CHR 0xC3,
      CHR 0xA1, CHR 0xC3, CHR 0x8B, CHR 0xE2, CHR 0x88, CHR 0x91, CHR 0xC3,
      CHR 0x98, CHR 0xC3, CHR 0x82, CHR 0xC3, CHR 0xA6, CHR 0xC3, CHR 0x91,
      CHR 0xC3, CHR 0x94, CHR 0xC2, CHR 0xBA, CHR 0xC3, CHR 0xB6]"

definition webhook_sent :: "string \<Rightarrow> FeishuSendResult" where
  "webhook_sent c = \<lparr>messageId = ''webhook-sent'', chatId = c\<rparr>"

definition isImage :: "string \<Rightarrow> bool" where
  "isImage ext =
     (ext \<in> set [''.jpg'', ''.jpeg'', ''.png'', ''.gif'', ''.webp'', ''.bmp'', ''.ico'', ''.tiff''])"

definition isLocalPath :: "string \<Rightarrow> bool" where
  "isLocalPath mediaUrl =
     (startsWith mediaUrl ''/'' \<or> startsWith mediaUrl ''~'' \<or> drive_letter mediaUrl)"

definition local_filePath :: "env \<Rightarrow> string \<Rightarrow> string" where
  "local_filePath env mediaUrl =
     (if startsWith mediaUrl ''~''
      then js_replace mediaUrl ''~'' (or_empty (ext_HOME env))
      else js_replace mediaUrl ''file://'' [])"

text \<open>Lines 82 to 110: the download of the image to a buffer.\<close>

definition acquire_buffer :: "env \<Rightarrow> string \<Rightarrow> buffer io" where
  "acquire_buffer env mediaUrl =
     (if isLocalPath mediaUrl
      then (let filePath = local_filePath env mediaUrl
            in io_bind (io_call (FsExistsSync filePath) (\<lambda>h. Inr (ext_existsSync env h)))
              (\<lambda>found.
                 if \<not> found
                 then io_throw (new_Error (''Local file not found: '' @ filePath))
                 else io_call (FsReadFileSync filePath) (ext_readFileSync env)))
      else io_bind (io_call (HttpGet mediaUrl) (ext_fetch env))
             (\<lambda>response.
                if \<not> resp_ok response
                then io_throw (new_Error (''Failed to fetch image from URL: ''
                       @ show_nat (resp_status response)))
                else of_result (resp_text response)))"

text \<open>Lines 143 to 157: the image host is tried after a quota error of the platform
  upload only; its failure is logged and leaves \<open>imageUrl\<close> null.\<close>

definition host_imageUrl :: "env \<Rightarrow> buffer \<Rightarrow> bool \<Rightarrow> string option io" where
  "host_imageUrl env buffer isQuotaErr =
     (if isQuotaErr
      then io_catch (io_bind (uploadImageToHost env buffer) (\<lambda>result. io_return (Some (url result))))
             (\<lambda>hostError. io_return None)
      else io_return None)"

definition fallbackText :: "string option \<Rightarrow> bool \<Rightarrow> string \<Rightarrow> string" where
  "fallbackText imageUrl isQuotaErr mediaUrl =
     (case imageUrl of
        Some u \<Rightarrow>
          if u \<noteq> [] then host_link_prefix @ u
          else if isQuotaErr then limited_prefix @ mediaUrl
          else link_prefix @ mediaUrl
      | None \<Rightarrow>
          if isQuotaErr then limited_prefix @ mediaUrl else link_prefix @ mediaUrl)"

text \<open>Lines 116 to 183: the platform upload and the send with the image key, and the
  handler of their failure.\<close>

definition upload_and_send :: "env \<Rightarrow> string \<Rightarrow> string \<Rightarrow> string \<Rightarrow> buffer \<Rightarrow> FeishuSendResult io" where
  "upload_and_send env c webhookUrl mediaUrl buffer =
     io_catch
       (io_bind (io_call (UploadImageFeishu buffer) (ext_uploadImageFeishu env))
          (\<lambda>imageKey.
             io_bind (sendViaWebhook env
                        \<lparr>wp_webhookUrl = webhookUrl, wp_text = [], wp_mentions = None,
                         wp_imageKey = Some imageKey\<rparr>)
               (\<lambda>_. io_return (webhook_sent c))))
       (\<lambda>uploadError.
          let isQuotaErr = isQuotaError uploadError
          in io_bind (host_imageUrl env buffer isQuotaErr)
               (\<lambda>imageUrl.
                  io_bind (sendViaWebhook env
                             \<lparr>wp_webhookUrl = webhookUrl,
                              wp_text = fallbackText imageUrl isQuotaErr mediaUrl,
                              wp_mentions = None, wp_imageKey = None\<rparr>)
                    (\<lambda>_. io_return (webhook_sent c))))"

text \<open>Lines 76 to 200: the image branch with its outer handler.\<close>

definition image_fallback :: "env \<Rightarrow> string \<Rightarrow> string \<Rightarrow> string \<Rightarrow> FeishuSendResult io" where
  "image_fallback env c webhookUrl mediaUrl =
     io_catch
       (io_bind (acquire_buffer env mediaUrl) (upload_and_send env c webhookUrl mediaUrl))
       (\<lambda>outerError.
          io_bind (sendViaWebhook env
                     \<lparr>wp_webhookUrl = webhookUrl, wp_text = link_prefix @ mediaUrl,
                      wp_mentions = None, wp_imageKey = None\<rparr>)
            (\<lambda>_. io_return (webhook_sent c)))"

text \<open>Lines 51 to 200: the fallback once the webhook URL is known.\<close>

definition webhook_fallback :: "env \<Rightarrow> string \<Rightarrow> string \<Rightarrow> string \<Rightarrow> FeishuSendResult io" where
  "webhook_fallback env c webhookUrl mediaUrl =
     (let ext = toLowerCase (path_extname mediaUrl)
      in if \<not> isImage ext
         then io_bind (sendViaWebhook env
                         \<lparr>wp_webhookUrl = webhookUrl, wp_text = link_prefix @ mediaUrl,
                          wp_mentions = None, wp_imageKey = None\<rparr>)
                (\<lambda>_. io_return (webhook_sent c))
         else image_fallback env c webhookUrl mediaUrl)"

definition no_webhook_message :: "js_value \<Rightarrow> string \<Rightarrow> string" where
  "no_webhook_message error c =
     ''Feishu API quota exceeded ('' @ js_String error
       @ ''). No webhook configured for fallback. ''
       @ ''Add webhookUrl to channels.feishu.groups['' @ [CHR 0x22] @ c @ [CHR 0x22]
       @ ''].webhookUrl in config.''"

definition sendMediaFeishuWithFallback ::
  "env \<Rightarrow> ClawdbotConfig \<Rightarrow> string \<Rightarrow> string \<Rightarrow> FeishuSendResult io" where
  "sendMediaFeishuWithFallback env cfg to mediaUrl =
     (case channels_feishu cfg of
        None \<Rightarrow> io_throw (new_Error ''Feishu channel not configured'')
      | Some feishuCfg \<Rightarrow>
          (case ext_normalizeFeishuTarget env to of
             None \<Rightarrow> io_throw (new_Error (''Invalid Feishu target: '' @ to))
           | Some c \<Rightarrow>
               if c = [] then io_throw (new_Error (''Invalid Feishu target: '' @ to))
               else io_catch (io_call (SendMediaFeishu to mediaUrl) (ext_sendMediaFeishu env))
                 (\<lambda>error.
                    if \<not> isQuotaError error then io_throw error
                    else
                      (case resolved_webhookUrl env feishuCfg c of
                         None \<Rightarrow> io_throw (new_Error (no_webhook_message error c))
                       | Some webhookUrl \<Rightarrow>
                           if webhookUrl = []
                           then io_throw (new_Error (no_webhook_message error c))
                           else webhook_fallback env c webhookUrl mediaUrl))))"

section \<open>Typing indicator tracker\<close>

definition TYPING_EMOJI :: string where
  "TYPING_EMOJI = ''Typing''"

text \<open>The text of the acknowledgment sent through the webhook (line 73), as bytes.\<close>

definition ack_glyph :: string where
  "ack_glyph =
     [CHR 0xF0, CHR 0x9F, CHR 0x91, CHR 0x80]"

record TypingIndicatorState =
  ti_messageId :: string
  reactionId :: "string option"
  usedWebhook :: "bool option"

definition registry_add :: "string \<Rightarrow> unit io" where
  "registry_add m =
     (\<lambda>w. (Inr (), w\<lparr>sentTypingIndicators := insert m (sentTypingIndicators w)\<rparr>))"

text \<open>Lines 60 to 85: the webhook acknowledgment inside the handler. It yields the state
  to return when the acknowledgment was sent, and nothing when the handler falls
  through to its last line.\<close>

definition webhook_ack ::
  "env \<Rightarrow> FeishuConfig \<Rightarrow> string \<Rightarrow> string option \<Rightarrow> js_value
     \<Rightarrow> TypingIndicatorState option io" where
  "webhook_ack env feishuCfg m c err =
     (if isQuotaError err \<and> truthy_str c
      then (case ext_normalizeFeishuTarget env (or_empty c) of
              None \<Rightarrow> io_return None
            | Some normalizedChatId \<Rightarrow>
                if normalizedChatId = [] then io_return None
                else (case resolved_webhookUrl env feishuCfg normalizedChatId of
                        None \<Rightarrow> io_return None
                      | Some webhookUrl \<Rightarrow>
                          if webhookUrl = [] then io_return None
                          else io_catch
                                 (io_bind (sendViaWebhook env
                                             \<lparr>wp_webhookUrl = webhookUrl, wp_text = ack_glyph,
                                              wp_mentions = None, wp_imageKey = None\<rparr>)
                                    (\<lambda>_. io_bind (registry_add m)
                                       (\<lambda>_. io_return
                                          (Some \<lparr>ti_messageId = m, reactionId = None,
                                                 usedWebhook = Some True\<rparr>))))
                                 (\<lambda>webhookErr. io_return None)))
      else io_return None)"

definition addTypingIndicator ::
  "env \<Rightarrow> ClawdbotConfig \<Rightarrow> string \<Rightarrow> string option \<Rightarrow> TypingIndicatorState io" where
  "addTypingIndicator env cfg m c =
     (\<lambda>w. if m \<in> sentTypingIndicators w
          then (Inr \<lparr>ti_messageId = m, reactionId = None, usedWebhook = None\<rparr>, w)
          else (case channels_feishu cfg of
                  None \<Rightarrow>
                    (Inr \<lparr>ti_messageId = m, reactionId = None, usedWebhook = None\<rparr>, w)
                | Some feishuCfg \<Rightarrow>
                    io_catch
                      (io_bind (io_call (ReactionCreate m TYPING_EMOJI) (ext_reaction_create env))
                         (\<lambda>rid. io_bind (registry_add m)
                            (\<lambda>_. io_return
                               \<lparr>ti_messageId = m, reactionId = rid, usedWebhook = None\<rparr>)))
                      (\<lambda>err. io_bind (webhook_ack env feishuCfg m c err)
                         (\<lambda>sent. case sent of
                              Some st \<Rightarrow> io_return st
                            | None \<Rightarrow> io_return
                                \<lparr>ti_messageId = m, reactionId = None, usedWebhook = None\<rparr>))
                      w))"

definition removeTypingIndicator ::
  "env \<Rightarrow> ClawdbotConfig \<Rightarrow> TypingIndicatorState \<Rightarrow> unit io" where
  "removeTypingIndicator env cfg st =
     (case reactionId st of
        None \<Rightarrow> io_return ()
      | Some rid \<Rightarrow>
          if rid = [] then io_return ()
          else (case channels_feishu cfg of
                  None \<Rightarrow> io_return ()
                | Some feishuCfg \<Rightarrow>
                    io_catch (io_call (ReactionDelete (ti_messageId st) rid) (ext_reaction_delete env))
                      (\<lambda>err. io_return ())))"

section \<open>Outbound facade (outbound.ts)\<close>

text \<open>The literal of line 30, as bytes.\<close>

definition outbound_link_prefix :: string where
  "outbound_link_prefix =
     [CHR 0xF0, CHR 0x9F, CHR 0x93, CHR 0x8E, CHR 0x20]"

text \<open>The result is the send result with the property \<open>channel: "feishu"\<close> added.\<close>

definition with_channel :: "FeishuSendResult \<Rightarrow> string \<times> FeishuSendResult" where
  "with_channel result = (''feishu'', result)"

definition sendText :: "env \<Rightarrow> ClawdbotConfig \<Rightarrow> string \<Rightarrow> string \<Rightarrow> (string \<times> FeishuSendResult) io" where
  "sendText env cfg to txt =
     io_bind (io_call (SendMessageWithFallback to txt) (ext_sendMessageWithFallback env))
       (\<lambda>result. io_return (with_channel result))"

definition sendMedia ::
  "env \<Rightarrow> ClawdbotConfig \<Rightarrow> string \<Rightarrow> string option \<Rightarrow> string option
     \<Rightarrow> (string \<times> FeishuSendResult) io" where
  "sendMedia env cfg to txt mediaUrl =
     io_bind
       (if truthy_str (map_option trim txt)
        then io_bind (io_call (SendMessageWithFallback to (or_empty txt))
                        (ext_sendMessageWithFallback env))
               (\<lambda>_. io_return ())
        else io_return ())
       (\<lambda>_. if truthy_str mediaUrl
            then io_catch
                   (io_bind (io_call (SendMediaWithFallback to (or_empty mediaUrl))
                               (ext_sendMediaWithFallback env))
                      (\<lambda>result. io_return (with_channel result)))
                   (\<lambda>err.
                      let fallbackText = outbound_link_prefix @ or_empty mediaUrl
                      in io_bind (io_call (SendMessageWithFallback to fallbackText)
                                    (ext_sendMessageWithFallback env))
                           (\<lambda>result. io_return (with_channel result)))
            else io_bind (io_call (SendMessageWithFallback to (or_empty txt))
                            (ext_sendMessageWithFallback env))
                   (\<lambda>result. io_return (with_channel result)))"

section \<open>Sample configurations and environments\<close>

text \<open>Concrete inputs on which the properties below are evaluated. In \<open>base_env\<close> the
  network is down, no file exists and every call of the platform fails with a quota
  error; the other environments change the answers of single calls.\<close>

definition answer_last :: "(event \<Rightarrow> 'a) \<Rightarrow> 'a \<Rightarrow> event list \<Rightarrow> 'a" where
  "answer_last f d h = (case rev h of [] \<Rightarrow> d | ev # _ \<Rightarrow> f ev)"

definition w0 :: world where
  "w0 = \<lparr>trace = [], sentTypingIndicators = {}\<rparr>"

definition cfg0 :: ClawdbotConfig where
  "cfg0 = \<lparr>channels_feishu =
            Some \<lparr>groups = [(''oc_1'', \<lparr>gc_webhookUrl = Some ''https://hook.example/1''\<rparr>)]\<rparr>\<rparr>"

definition cfg_no_webhook :: ClawdbotConfig where
  "cfg_no_webhook = \<lparr>channels_feishu = Some \<lparr>groups = []\<rparr>\<rparr>"

definition quota_error :: js_value where
  "quota_error = new_Error ''Request failed with status code 429''"

definition text_response :: "string \<Rightarrow> http_response" where
  "text_response body =
     \<lparr>resp_ok = True, resp_status = 200, resp_statusText = ''OK'', resp_text = Inr body,
      resp_json = Inl (JError ''SyntaxError'' ''Unexpected token'')\<rparr>"

definition webhook_ok_response :: http_response where
  "webhook_ok_response =
     \<lparr>resp_ok = True, resp_status = 200, resp_statusText = ''OK'', resp_text = Inr ''{}'',
      resp_json = Inr \<lparr>wr_code = JNumber 0, wr_msg = JString ''success''\<rparr>\<rparr>"

definition base_env :: env where
  "base_env =
     \<lparr>ext_HOME = Some ''/home/bot'',
      ext_normalizeFeishuTarget = (\<lambda>t. if t = [] then None else Some t),
      ext_resolveFeishuGroupConfig = (\<lambda>feishuCfg groupId. map_of (groups feishuCfg) groupId),
      ext_buildMentionedCardContent = (\<lambda>mentions t. t),
      ext_fetch = (\<lambda>h. Inl (JError ''TypeError'' ''fetch failed'')),
      ext_existsSync = (\<lambda>h. False),
      ext_readFileSync = (\<lambda>h. Inl (new_Error ''ENOENT'')),
      ext_sendMediaFeishu = (\<lambda>h. Inl quota_error),
      ext_uploadImageFeishu = (\<lambda>h. Inl quota_error),
      ext_reaction_create = (\<lambda>h. Inl quota_error),
      ext_reaction_delete = (\<lambda>h. Inl quota_error),
      ext_sendMessageWithFallback = (\<lambda>h. Inl quota_error),
      ext_sendMediaWithFallback = (\<lambda>h. Inl quota_error)\<rparr>"

text \<open>Both image hosts answer 200 with a body that is no URL.\<close>

definition hosts_invalid_env :: env where
  "hosts_invalid_env = base_env\<lparr>ext_fetch := (\<lambda>h. Inr (text_response ''Service busy''))\<rparr>"

text \<open>0x0.st answers 200 with the URL after a blank; every other request fails.\<close>

definition x0_blank_env :: env where
  "x0_blank_env =
     base_env\<lparr>ext_fetch :=
       answer_last
         (\<lambda>ev. case ev of
            HttpPostForm u form \<Rightarrow>
              if u = ''https://0x0.st'' then Inr (text_response '' https://0x0.st/abc.png'')
              else Inl (JError ''TypeError'' ''fetch failed'')
          | _ \<Rightarrow> Inl (JError ''TypeError'' ''fetch failed''))
         (Inl (JError ''TypeError'' ''fetch failed''))\<rparr>"

definition hook :: string where
  "hook = ''https://hook.example/1''"

definition webhook_up_env :: env where
  "webhook_up_env =
     base_env\<lparr>ext_fetch :=
                 answer_last
                   (\<lambda>ev. case ev of
                      HttpPostJson u payload \<Rightarrow> Inr webhook_ok_response
                    | _ \<Rightarrow> Inl (JError ''TypeError'' ''fetch failed''))
                   (Inl (JError ''TypeError'' ''fetch failed'')),
               ext_existsSync := (\<lambda>h. True),
               ext_readFileSync := (\<lambda>h. Inr ''PNG''),
               ext_uploadImageFeishu := (\<lambda>h. Inr ''img_v3_abc'')\<rparr>"

definition reaction_up_env :: env where
  "reaction_up_env = base_env\<lparr>ext_reaction_create := (\<lambda>h. Inr (Some ''reaction_1''))\<rparr>"

definition text_up_env :: env where
  "text_up_env =
     base_env\<lparr>ext_sendMessageWithFallback := (\<lambda>h. Inr \<lparr>messageId = ''om_1'', chatId = ''oc_1''\<rparr>)\<rparr>"

section \<open>Notions used in the properties\<close>

text \<open>The two notions of the specification: a text contains an indicator, and a text
  contains it in any case (some part of the text reads as the indicator once its
  letters are folded to lower case).\<close>

definition contains_text :: "string \<Rightarrow> string \<Rightarrow> bool" where
  "contains_text s ind = (\<exists>pre post. s = pre @ ind @ post)"

definition contains_any_case :: "string \<Rightarrow> string \<Rightarrow> bool" where
  "contains_any_case s ind = (\<exists>pre mid post. s = pre @ mid @ post \<and> toLowerCase mid = ind)"

fun is_post_to :: "string \<Rightarrow> event \<Rightarrow> bool" where
  "is_post_to u (HttpPostJson u' payload) = (u' = u)"
| "is_post_to u ev = False"

definition webhook_posts :: "string \<Rightarrow> world \<Rightarrow> nat" where
  "webhook_posts u w = length (filter (is_post_to u) (trace w))"

definition growing :: "'a io \<Rightarrow> bool" where
  "growing m = (\<forall>w. prefix (trace w) (trace (snd (m w))))"

definition never_throws :: "'a io \<Rightarrow> bool" where
  "never_throws m = (\<forall>w. \<exists>x. fst (m w) = Inr x)"

definition posts :: "string \<Rightarrow> 'a io \<Rightarrow> bool" where
  "posts u m = (growing m \<and> (\<forall>w. webhook_posts u w < webhook_posts u (snd (m w))))"

definition posts_or_throws :: "string \<Rightarrow> 'a io \<Rightarrow> bool" where
  "posts_or_throws u m =
     (growing m \<and> (\<forall>w x. fst (m w) = Inr x \<longrightarrow> webhook_posts u w < webhook_posts u (snd (m w))))"

named_theorems growing_intros

definition acquisition_event :: "env \<Rightarrow> string \<Rightarrow> event" where
  "acquisition_event env mediaUrl =
     (if isLocalPath mediaUrl then FsExistsSync (local_filePath env mediaUrl)
      else HttpGet mediaUrl)"

definition starts_with :: "event \<Rightarrow> 'a io \<Rightarrow> bool" where
  "starts_with ev m = (\<forall>w. \<exists>evs. trace (snd (m w)) = trace w @ ev # evs)"

text \<open>The typing indicator: the state returned when nothing was added, and what it means
  that a call of \<open>addTypingIndicator\<close> succeeds: the message is not yet registered, the
  channel is configured, and either the reaction call of the platform succeeds, or it
  fails with a quota error, a chat id is given, a webhook URL is resolved for its
  normalized form and the webhook acknowledgment succeeds.\<close>

definition not_added :: "string \<Rightarrow> TypingIndicatorState" where
  "not_added m = \<lparr>ti_messageId = m, reactionId = None, usedWebhook = None\<rparr>"

definition primary_add_ok :: "env \<Rightarrow> string \<Rightarrow> world \<Rightarrow> bool" where
  "primary_add_ok env m w =
     (case ext_reaction_create env (trace w @ [ReactionCreate m TYPING_EMOJI]) of
        Inr rid \<Rightarrow> True
      | Inl err \<Rightarrow> False)"

definition webhook_add_ok :: "env \<Rightarrow> FeishuConfig \<Rightarrow> string \<Rightarrow> string option \<Rightarrow> world \<Rightarrow> bool" where
  "webhook_add_ok env feishuCfg m c w =
     (case ext_reaction_create env (trace w @ [ReactionCreate m TYPING_EMOJI]) of
        Inr rid \<Rightarrow> False
      | Inl err \<Rightarrow>
          isQuotaError err \<and>
          (case c of
             None \<Rightarrow> False
           | Some chat \<Rightarrow>
               chat \<noteq> [] \<and>
               (case ext_normalizeFeishuTarget env chat of
                  None \<Rightarrow> False
                | Some n \<Rightarrow>
                    n \<noteq> [] \<and>
                    (case resolved_webhookUrl env feishuCfg n of
                       None \<Rightarrow> False
                     | Some u \<Rightarrow>
                         u \<noteq> [] \<and>
                         fst (sendViaWebhook env
                                \<lparr>wp_webhookUrl = u, wp_text = ack_glyph, wp_mentions = None,
                                 wp_imageKey = None\<rparr>
                                (w\<lparr>trace := trace w @ [ReactionCreate m TYPING_EMOJI]\<rparr>))
                           = Inr ()))))"

definition add_succeeds :: "env \<Rightarrow> ClawdbotConfig \<Rightarrow> string \<Rightarrow> string option \<Rightarrow> world \<Rightarrow> bool" where
  "add_succeeds env cfg m c w =
     (m \<notin> sentTypingIndicators w \<and>
      (case channels_feishu cfg of
         None \<Rightarrow> False
       | Some feishuCfg \<Rightarrow> primary_add_ok env m w \<or> webhook_add_ok env feishuCfg m c w))"

section \<open>Properties\<close>

subsection \<open>Quota classifier\<close>

lemma js_includes_sublist: "js_includes s pat = sublist pat s"
  by (induction s) (simp_all add: sublist_Cons_right)

lemma js_includes_contains: "js_includes s ind = contains_text s ind"
  by (simp add: js_includes_sublist sublist_def contains_text_def)

lemma js_includes_lower_contains:
  "js_includes (toLowerCase s) ind = contains_any_case s ind"
proof
  assume "js_includes (toLowerCase s) ind"
  then obtain ps ss where "map lower_char s = ps @ ind @ ss"
    by (auto simp: js_includes_sublist sublist_def toLowerCase_def)
  then obtain us vs where s: "s = us @ vs" and "ind @ ss = map lower_char vs"
    by (auto simp: map_eq_append_conv)
  then obtain mid ws where "vs = mid @ ws" and "ind = map lower_char mid"
    by (auto simp: append_eq_map_conv)
  with s show "contains_any_case s ind"
    by (auto simp: contains_any_case_def toLowerCase_def)
next
  assume "contains_any_case s ind"
  then obtain pre mid post where "s = pre @ mid @ post" and "map lower_char mid = ind"
    by (auto simp: contains_any_case_def toLowerCase_def)
  then have "map lower_char s = map lower_char pre @ ind @ map lower_char post"
    by simp
  then show "js_includes (toLowerCase s) ind"
    by (simp add: js_includes_sublist toLowerCase_def)
qed

lemma show_nat_0: "show_nat 0 = ''0''"
  by (simp add: show_nat.simps digit_char_def)

lemma falsy_no_indicator:
  assumes "\<not> js_truthy e"
  shows "\<not> js_includes (js_String e) ''429''"
    and "\<not> js_includes (js_String e) ''99991403''"
    and "\<not> js_includes (toLowerCase (js_String e)) ''quota''"
    and "\<not> js_includes (toLowerCase (js_String e)) ''rate limit''"
  using assms
  by (cases e; simp add: show_int_def show_nat_0 toLowerCase_def lower_char_def)+

text \<open>
  C5. The classifier is a function of the string form of the error alone: it answers
  true exactly when that text contains \<open>429\<close> or \<open>99991403\<close>, or contains \<open>quota\<close> or
  \<open>rate limit\<close> in any case; so every text with one of the indicators is classified as
  a quota error and every text with none of them is not.
\<close>

theorem isQuotaError_text:
  "isQuotaError e =
     (contains_text (js_String e) ''429''
      \<or> contains_text (js_String e) ''99991403''
      \<or> contains_any_case (js_String e) ''quota''
      \<or> contains_any_case (js_String e) ''rate limit'')"
proof -
  let ?s = "js_String e"
  have A: "js_includes ?s ''429'' = contains_text ?s ''429''"
    and B: "js_includes ?s ''99991403'' = contains_text ?s ''99991403''"
    by (rule js_includes_contains)+
  have C: "js_includes (toLowerCase ?s) ''quota'' = contains_any_case ?s ''quota''"
    and D: "js_includes (toLowerCase ?s) ''rate limit'' = contains_any_case ?s ''rate limit''"
    by (rule js_includes_lower_contains)+
  show ?thesis
  proof (cases "js_truthy e")
    case True
    then show ?thesis
      unfolding isQuotaError_def Let_def A B C D by auto
  next
    case False
    from falsy_no_indicator [OF False] False show ?thesis
      unfolding isQuotaError_def A B C D by simp
  qed
qed

text \<open>The classifier on four texts with an indicator and on the unrelated text
  \<open>not found\<close>.\<close>

theorem isQuotaError_text_witness:
  "isQuotaError (JError ''Error'' ''Request failed with status code 429'')
   \<and> isQuotaError (JString ''code 99991403'')
   \<and> isQuotaError (JError ''Error'' ''Monthly QUOTA used up'')
   \<and> isQuotaError (JString ''Rate Limit reached'')
   \<and> \<not> isQuotaError (JError ''Error'' ''not found'')"
proof -
  have "contains_text (js_String (JError ''Error'' ''Request failed with status code 429'')) ''429''"
    unfolding contains_text_def
    by (rule exI [of _ "''Error: Request failed with status code ''"], rule exI [of _ "[]"]) simp
  then have 1: "isQuotaError (JError ''Error'' ''Request failed with status code 429'')"
    using isQuotaError_text [of "JError ''Error'' ''Request failed with status code 429''"] by blast
  have "contains_text (js_String (JString ''code 99991403'')) ''99991403''"
    unfolding contains_text_def
    by (rule exI [of _ "''code ''"], rule exI [of _ "[]"]) simp
  then have 2: "isQuotaError (JString ''code 99991403'')"
    using isQuotaError_text [of "JString ''code 99991403''"] by blast
  have "contains_any_case (js_String (JError ''Error'' ''Monthly QUOTA used up'')) ''quota''"
    unfolding contains_any_case_def
    by (rule exI [of _ "''Error: Monthly ''"], rule exI [of _ "''QUOTA''"],
        rule exI [of _ "'' used up''"]) (simp add: toLowerCase_def lower_char_def)
  then have 3: "isQuotaError (JError ''Error'' ''Monthly QUOTA used up'')"
    using isQuotaError_text [of "JError ''Error'' ''Monthly QUOTA used up''"] by blast
  have "contains_any_case (js_String (JString ''Rate Limit reached'')) ''rate limit''"
    unfolding contains_any_case_def
    by (rule exI [of _ "[]"], rule exI [of _ "''Rate Limit''"],
        rule exI [of _ "'' reached''"]) (simp add: toLowerCase_def lower_char_def)
  then have 4: "isQuotaError (JString ''Rate Limit reached'')"
    using isQuotaError_text [of "JString ''Rate Limit reached''"] by blast
  have "\<not> contains_text (js_String (JError ''Error'' ''not found'')) ''429''"
    and "\<not> contains_text (js_String (JError ''Error'' ''not found'')) ''99991403''"
    unfolding js_includes_contains [symmetric] by simp_all
  moreover have "\<not> contains_any_case (js_String (JError ''Error'' ''not found'')) ''quota''"
    and "\<not> contains_any_case (js_String (JError ''Error'' ''not found'')) ''rate limit''"
    unfolding js_includes_lower_contains [symmetric]
    by (simp_all add: toLowerCase_def lower_char_def)
  ultimately have 5: "\<not> isQuotaError (JError ''Error'' ''not found'')"
    using isQuotaError_text [of "JError ''Error'' ''not found''"] by blast
  from 1 2 3 4 5 show ?thesis by blast
qed

lemma isQuotaError_quota_error: "isQuotaError quota_error"
  by (simp add: isQuotaError_def quota_error_def new_Error_def)

subsection \<open>The world after a call\<close>

lemma io_call_world: "snd (io_call ev answer w) = w\<lparr>trace := trace w @ [ev]\<rparr>"
  by (simp add: io_call_def Let_def)

lemma sendViaWebhook_world:
  "snd (sendViaWebhook env params w) =
     w\<lparr>trace := trace w @ [HttpPostJson (wp_webhookUrl params)
                              (webhook_payload (card_content env params))]\<rparr>"
  by (simp add: sendViaWebhook_def Let_def io_bind_def io_call_def io_throw_def io_return_def
      of_result_def split: sum.splits prod.splits)

lemma uploadToCatbox_world:
  "snd (uploadToCatbox env buffer w) =
     w\<lparr>trace := trace w @ [HttpPostForm ''https://catbox.moe/user/api.php''
                             [(''reqtype'', ''fileupload''), (''fileToUpload'', buffer)]]\<rparr>"
  by (simp add: uploadToCatbox_def Let_def io_bind_def io_call_def io_throw_def io_return_def
      of_result_def split: sum.splits prod.splits)

lemma uploadTo0x0_world:
  "snd (uploadTo0x0 env buffer w) =
     w\<lparr>trace := trace w @ [HttpPostForm ''https://0x0.st'' [(''file'', buffer)]]\<rparr>"
  by (simp add: uploadTo0x0_def Let_def io_bind_def io_call_def io_throw_def io_return_def
      of_result_def split: sum.splits prod.splits)

subsection \<open>Webhook sender\<close>

text \<open>
  C3. The claim is that the message posted after a successful platform upload carries
  the image key. On the code it does not: \<open>sendViaWebhook\<close> reads \<open>webhookUrl\<close>, \<open>text\<close>
  and \<open>mentions\<close> only, so for every image key the orchestrator's call (empty text, no
  mentions) posts one and the same card, whose only element is an empty markdown text,
  and the call does exactly what the same call without an image key does.
\<close>

theorem sendViaWebhook_drops_imageKey:
  "snd (sendViaWebhook env
          \<lparr>wp_webhookUrl = u, wp_text = [], wp_mentions = None, wp_imageKey = Some imageKey\<rparr> w)
     = w\<lparr>trace := trace w @ [HttpPostJson u (webhook_payload [])]\<rparr>
   \<and> sendViaWebhook env
          \<lparr>wp_webhookUrl = u, wp_text = [], wp_mentions = None, wp_imageKey = Some imageKey\<rparr>
     = sendViaWebhook env
          \<lparr>wp_webhookUrl = u, wp_text = [], wp_mentions = None, wp_imageKey = None\<rparr>"
  by (simp add: sendViaWebhook_world) (simp add: sendViaWebhook_def card_content_def)

subsection \<open>Image host multiplexer\<close>

lemma uploadImageToHost_unfold:
  "uploadImageToHost env buffer w =
     (case uploadToCatbox env buffer w of
        (Inr r, w1) \<Rightarrow> (Inr r, w1)
      | (Inl e1, w1) \<Rightarrow>
          (case uploadTo0x0 env buffer w1 of
             (Inr r, w2) \<Rightarrow> (Inr r, w2)
           | (Inl e2, w2) \<Rightarrow>
               (Inl (new_Error (''All image hosting services failed. Last error: ''
                       @ template_str (js_message e2))), w2)))"
  by (simp add: uploadImageToHost_def services_def io_catch_def io_throw_def
      split: sum.splits prod.splits)

lemma catbox_invalid:
  assumes "ext_fetch env (trace w @ [HttpPostForm ''https://catbox.moe/user/api.php''
             [(''reqtype'', ''fileupload''), (''fileToUpload'', buffer)]]) = Inr response"
    and "resp_ok response" and "resp_text response = Inr body"
    and "\<not> prefix ''https://'' body"
  shows "fst (uploadToCatbox env buffer w) =
           Inl (new_Error (''catbox upload failed: invalid response - '' @ body))"
  using assms
  by (simp add: uploadToCatbox_def Let_def io_bind_def io_call_def io_throw_def io_return_def
      of_result_def startsWith_def)

lemma x0_invalid:
  assumes "ext_fetch env (trace w @ [HttpPostForm ''https://0x0.st'' [(''file'', buffer)]])
             = Inr response"
    and "resp_ok response" and "resp_text response = Inr body"
    and "\<not> prefix ''https://'' (trim body)"
  shows "fst (uploadTo0x0 env buffer w) =
           Inl (new_Error (''0x0.st upload failed: invalid response - '' @ body))"
  using assms
  by (simp add: uploadTo0x0_def Let_def io_bind_def io_call_def io_throw_def io_return_def
      of_result_def startsWith_def)

lemma trim_blank: "trim '' https://0x0.st/abc.png'' = ''https://0x0.st/abc.png''"
  by (simp add: trim_def white_space_def strip_all.simps)

text \<open>
  C6, as stated, fails for the second adapter: \<open>uploadTo0x0\<close> trims the body before the
  prefix test, so a 200 answer whose body begins with a blank and then holds the URL
  does not begin with \<open>https://\<close> and is nevertheless a success of the adapter, and of
  the multiplexer.
\<close>

theorem x0_leading_blank_counterexample:
  "\<not> prefix ''https://'' '' https://0x0.st/abc.png''
   \<and> fst (uploadTo0x0 x0_blank_env ''PNG'' w0)
       = Inr \<lparr>url = ''https://0x0.st/abc.png'', deleteUrl = None\<rparr>
   \<and> fst (uploadImageToHost x0_blank_env ''PNG'' w0)
       = Inr \<lparr>url = ''https://0x0.st/abc.png'', deleteUrl = None\<rparr>"
  by (simp add: uploadImageToHost_def services_def uploadToCatbox_def uploadTo0x0_def x0_blank_env_def base_env_def w0_def
      answer_last_def text_response_def io_bind_def io_catch_def io_call_def io_return_def io_throw_def
      of_result_def startsWith_def trim_blank Let_def)

text \<open>
  C6, amended. \<open>uploadImageToHost\<close> runs catbox.moe first and returns its result when it
  succeeds, in the world that catbox.moe alone has left (one request, none to 0x0.st);
  when catbox.moe fails, in whatever way, it runs 0x0.st and returns its result when it
  succeeds; when both fail it throws one error, whose message ends with the message of
  the failure of 0x0.st, the last one tried. Each adapter issues exactly one request.
  A 200 answer counts as a failure of the adapter alone when the body (for catbox.moe)
  or the body with its surrounding white space removed (for 0x0.st) does not begin with
  \<open>https://\<close>.
\<close>

theorem uploadImageToHost_order:
  "uploadImageToHost env buffer w =
     (case uploadToCatbox env buffer w of
        (Inr r, w1) \<Rightarrow> (Inr r, w1)
      | (Inl e1, w1) \<Rightarrow>
          (case uploadTo0x0 env buffer w1 of
             (Inr r, w2) \<Rightarrow> (Inr r, w2)
           | (Inl e2, w2) \<Rightarrow>
               (Inl (new_Error (''All image hosting services failed. Last error: ''
                       @ template_str (js_message e2))), w2)))
   \<and> snd (uploadToCatbox env buffer w) =
       w\<lparr>trace := trace w @ [HttpPostForm ''https://catbox.moe/user/api.php''
                               [(''reqtype'', ''fileupload''), (''fileToUpload'', buffer)]]\<rparr>
   \<and> snd (uploadTo0x0 env buffer w) =
       w\<lparr>trace := trace w @ [HttpPostForm ''https://0x0.st'' [(''file'', buffer)]]\<rparr>
   \<and> (ext_fetch env (trace w @ [HttpPostForm ''https://catbox.moe/user/api.php''
           [(''reqtype'', ''fileupload''), (''fileToUpload'', buffer)]]) = Inr response
        \<and> resp_ok response \<and> resp_text response = Inr body \<and> \<not> prefix ''https://'' body
      \<longrightarrow> fst (uploadToCatbox env buffer w) =
            Inl (new_Error (''catbox upload failed: invalid response - '' @ body)))
   \<and> (ext_fetch env (trace w @ [HttpPostForm ''https://0x0.st'' [(''file'', buffer)]]) = Inr response
        \<and> resp_ok response \<and> resp_text response = Inr body
        \<and> \<not> prefix ''https://'' (trim body)
      \<longrightarrow> fst (uploadTo0x0 env buffer w) =
            Inl (new_Error (''0x0.st upload failed: invalid response - '' @ body)))"
  using uploadImageToHost_unfold [of env buffer w] uploadToCatbox_world [of env buffer w]
    uploadTo0x0_world [of env buffer w] catbox_invalid [of env w buffer response body]
    x0_invalid [of env w buffer response body]
  by blast


text \<open>Both hosts answer 200 with the body \<open>Service busy\<close>: both adapters fail, both were
  asked, in order, and the error names the failure of 0x0.st.\<close>

theorem uploadImageToHost_order_witness:
  "fst (uploadToCatbox hosts_invalid_env ''PNG'' w0)
     = Inl (new_Error ''catbox upload failed: invalid response - Service busy'')
   \<and> fst (uploadImageToHost hosts_invalid_env ''PNG'' w0)
     = Inl (new_Error (''All image hosting services failed. Last error: ''
                        @ ''0x0.st upload failed: invalid response - Service busy''))
   \<and> trace (snd (uploadImageToHost hosts_invalid_env ''PNG'' w0))
     = [HttpPostForm ''https://catbox.moe/user/api.php''
          [(''reqtype'', ''fileupload''), (''fileToUpload'', ''PNG'')],
        HttpPostForm ''https://0x0.st'' [(''file'', ''PNG'')]]"
proof -
  let ?r = "text_response ''Service busy''"
  let ?w1 = "snd (uploadToCatbox hosts_invalid_env ''PNG'' w0)"
  let ?w2 = "snd (uploadTo0x0 hosts_invalid_env ''PNG'' ?w1)"
  note A = uploadImageToHost_order [of hosts_invalid_env "''PNG''" w0 ?r "''Service busy''"]
  note B = uploadImageToHost_order [of hosts_invalid_env "''PNG''" ?w1 ?r "''Service busy''"]
  have fetch: "ext_fetch hosts_invalid_env h = Inr ?r" for h
    by (simp add: hosts_invalid_env_def)
  have r: "resp_ok ?r" "resp_text ?r = Inr ''Service busy''"
    by (simp_all add: text_response_def)
  have np: "\<not> prefix ''https://'' ''Service busy''"
    "\<not> prefix ''https://'' (trim ''Service busy'')"
    by (simp_all add: trim_def white_space_def strip_all.simps)
  from A fetch r np have c: "fst (uploadToCatbox hosts_invalid_env ''PNG'' w0)
      = Inl (new_Error ''catbox upload failed: invalid response - Service busy'')"
    by simp
  from B fetch r np have x: "fst (uploadTo0x0 hosts_invalid_env ''PNG'' ?w1)
      = Inl (new_Error ''0x0.st upload failed: invalid response - Service busy'')"
    by simp
  from A have w1: "trace ?w1 = [HttpPostForm ''https://catbox.moe/user/api.php''
          [(''reqtype'', ''fileupload''), (''fileToUpload'', ''PNG'')]]"
    by (simp add: w0_def)
  from B w1 have w2: "trace ?w2 = [HttpPostForm ''https://catbox.moe/user/api.php''
          [(''reqtype'', ''fileupload''), (''fileToUpload'', ''PNG'')],
        HttpPostForm ''https://0x0.st'' [(''file'', ''PNG'')]]"
    by simp
  from A c x have "uploadImageToHost hosts_invalid_env ''PNG'' w0
      = (Inl (new_Error (''All image hosting services failed. Last error: ''
                        @ ''0x0.st upload failed: invalid response - Service busy'')), ?w2)"
    by (simp add: new_Error_def split: prod.splits sum.splits)
  with c w2 show ?thesis by simp
qed

subsection \<open>Media delivery orchestrator\<close>

text \<open>Every asynchronous function of the model only ever appends to the trace.\<close>

lemma growing_return [growing_intros]: "growing (io_return x)"
  by (simp add: growing_def io_return_def)

lemma growing_throw [growing_intros]: "growing (io_throw e)"
  by (simp add: growing_def io_throw_def)

lemma growing_call [growing_intros]: "growing (io_call ev answer)"
  by (simp add: growing_def io_call_def Let_def)

lemma growing_of_result [growing_intros]: "growing (of_result r)"
  by (cases r) (simp_all add: of_result_def growing_intros)

lemma growing_bind [growing_intros]:
  assumes "growing m" and "\<And>x. growing (f x)"
  shows "growing (io_bind m f)"
proof -
  have "prefix (trace w) (trace (snd (io_bind m f w)))" for w
  proof (cases "m w")
    case (Pair r w')
    from assms(1) Pair have 1: "prefix (trace w) (trace w')"
      by (auto simp: growing_def dest: spec [of _ w])
    show ?thesis
    proof (cases r)
      case (Inl e)
      with Pair 1 show ?thesis by (simp add: io_bind_def)
    next
      case (Inr x)
      from assms(2) [of x] have "prefix (trace w') (trace (snd (f x w')))"
        by (simp add: growing_def)
      with 1 Pair Inr show ?thesis
        by (auto simp: io_bind_def intro: prefix_order.trans)
    qed
  qed
  then show ?thesis by (simp add: growing_def)
qed

lemma growing_catch [growing_intros]:
  assumes "growing m" and "\<And>e. growing (h e)"
  shows "growing (io_catch m h)"
proof -
  have "prefix (trace w) (trace (snd (io_catch m h w)))" for w
  proof (cases "m w")
    case (Pair r w')
    from assms(1) Pair have 1: "prefix (trace w) (trace w')"
      by (auto simp: growing_def dest: spec [of _ w])
    show ?thesis
    proof (cases r)
      case (Inr x)
      with Pair 1 show ?thesis by (simp add: io_catch_def)
    next
      case (Inl e)
      from assms(2) [of e] have "prefix (trace w') (trace (snd (h e w')))"
        by (simp add: growing_def)
      with 1 Pair Inl show ?thesis
        by (auto simp: io_catch_def intro: prefix_order.trans)
    qed
  qed
  then show ?thesis by (simp add: growing_def)
qed

lemma growing_sendViaWebhook [growing_intros]: "growing (sendViaWebhook env params)"
  by (simp add: growing_def sendViaWebhook_world)

lemma growing_uploadImageToHost [growing_intros]: "growing (uploadImageToHost env buffer)"
proof -
  have A: "growing (try_services env buffer ss lastError)"
    if "\<forall>s \<in> set ss. growing (snd s env buffer)" for ss lastError
    using that
  proof (induction ss arbitrary: lastError)
    case Nil
    show ?case by (simp add: growing_throw)
  next
    case (Cons s ss)
    then show ?case by (simp add: growing_catch)
  qed
  have "growing (uploadToCatbox env buffer)" "growing (uploadTo0x0 env buffer)"
    by (simp_all add: growing_def uploadToCatbox_world uploadTo0x0_world)
  then have "\<forall>s \<in> set services. growing (snd s env buffer)"
    by (simp add: services_def)
  then show ?thesis
    unfolding uploadImageToHost_def by (rule A)
qed

lemma growing_acquire_buffer [growing_intros]: "growing (acquire_buffer env mediaUrl)"
  unfolding acquire_buffer_def Let_def
  by (auto intro!: growing_intros)

lemma growing_host_imageUrl [growing_intros]: "growing (host_imageUrl env buffer q)"
  unfolding host_imageUrl_def
  by (auto intro!: growing_intros)

text \<open>Counting the webhook requests: a block that ends every path with a call of
  \<open>sendViaWebhook\<close> adds at least one request to the webhook URL.\<close>

lemma posts_mono: "prefix (trace w) (trace w') \<Longrightarrow> webhook_posts u w \<le> webhook_posts u w'"
  by (auto simp: webhook_posts_def prefix_def)

lemma growing_posts_le: "growing m \<Longrightarrow> webhook_posts u w \<le> webhook_posts u (snd (m w))"
  by (simp add: growing_def posts_mono)

lemma never_throws_host_imageUrl: "never_throws (host_imageUrl env buffer q)"
  by (auto simp: never_throws_def host_imageUrl_def io_catch_def io_bind_def io_return_def
      split: prod.splits sum.splits)

lemma posts_sendViaWebhook_then:
  "posts u (io_bind (sendViaWebhook env \<lparr>wp_webhookUrl = u, wp_text = t, wp_mentions = ms,
                                         wp_imageKey = k\<rparr>) f)" if "\<And>x. growing (f x)"
proof -
  let ?p = "\<lparr>wp_webhookUrl = u, wp_text = t, wp_mentions = ms, wp_imageKey = k\<rparr>"
  have g: "growing (io_bind (sendViaWebhook env ?p) f)"
    using that by (intro growing_intros)
  have "webhook_posts u w < webhook_posts u (snd (io_bind (sendViaWebhook env ?p) f w))" for w
  proof (cases "sendViaWebhook env ?p w")
    case (Pair r w')
    then have "w' = snd (sendViaWebhook env ?p w)" by simp
    then have 1: "webhook_posts u w' = Suc (webhook_posts u w)"
      by (simp add: sendViaWebhook_world webhook_posts_def)
    show ?thesis
    proof (cases r)
      case (Inl e)
      with Pair 1 show ?thesis by (simp add: io_bind_def)
    next
      case (Inr x)
      have "webhook_posts u w' \<le> webhook_posts u (snd (f x w'))"
        using that [of x] by (rule growing_posts_le)
      with Pair Inr 1 show ?thesis by (simp add: io_bind_def)
    qed
  qed
  with g show ?thesis by (simp add: posts_def)
qed

lemma posts_imp: "posts u m \<Longrightarrow> posts_or_throws u m"
  by (simp add: posts_def posts_or_throws_def)

lemma posts_bind_after:
  assumes "growing m" and "never_throws m" and "\<And>x. posts u (f x)"
  shows "posts u (io_bind m f)"
proof -
  have g: "growing (io_bind m f)"
    using assms by (intro growing_intros) (simp_all add: posts_def)
  have "webhook_posts u w < webhook_posts u (snd (io_bind m f w))" for w
  proof -
    from assms(2) obtain x where "fst (m w) = Inr x" by (auto simp: never_throws_def)
    then obtain w' where mw: "m w = (Inr x, w')" by (cases "m w") simp
    have "webhook_posts u w \<le> webhook_posts u (snd (m w))"
      using assms(1) by (rule growing_posts_le)
    moreover have "webhook_posts u w' < webhook_posts u (snd (f x w'))"
      using assms(3) [of x] by (simp add: posts_def)
    ultimately show ?thesis using mw by (simp add: io_bind_def)
  qed
  with g show ?thesis by (simp add: posts_def)
qed

lemma posts_or_throws_bind:
  assumes "growing m" and "\<And>x. posts_or_throws u (f x)"
  shows "posts_or_throws u (io_bind m f)"
proof -
  have g: "growing (io_bind m f)"
    using assms by (intro growing_intros) (simp_all add: posts_or_throws_def)
  have "webhook_posts u w < webhook_posts u (snd (io_bind m f w))"
    if "fst (io_bind m f w) = Inr y" for w y
  proof (cases "m w")
    case (Pair r w')
    with that obtain x where r: "r = Inr x"
      by (cases r) (simp_all add: io_bind_def)
    have "webhook_posts u w \<le> webhook_posts u (snd (m w))"
      using assms(1) by (rule growing_posts_le)
    moreover from that Pair r have "fst (f x w') = Inr y" by (simp add: io_bind_def)
    with assms(2) [of x] have "webhook_posts u w' < webhook_posts u (snd (f x w'))"
      by (simp add: posts_or_throws_def)
    ultimately show ?thesis using Pair r by (simp add: io_bind_def)
  qed
  with g show ?thesis by (simp add: posts_or_throws_def)
qed

lemma posts_catch:
  assumes "posts_or_throws u m" and "\<And>e. posts u (h e)"
  shows "posts u (io_catch m h)"
proof -
  have g: "growing (io_catch m h)"
    using assms by (intro growing_intros) (simp_all add: posts_def posts_or_throws_def)
  have "webhook_posts u w < webhook_posts u (snd (io_catch m h w))" for w
  proof (cases "m w")
    case (Pair r w')
    show ?thesis
    proof (cases r)
      case (Inr x)
      with Pair have "fst (m w) = Inr x" by simp
      with assms(1) have "webhook_posts u w < webhook_posts u (snd (m w))"
        unfolding posts_or_throws_def by blast
      with Pair Inr show ?thesis by (simp add: io_catch_def)
    next
      case (Inl e)
      have "webhook_posts u w \<le> webhook_posts u (snd (m w))"
        using assms(1) by (simp add: posts_or_throws_def growing_posts_le)
      moreover have "webhook_posts u w' < webhook_posts u (snd (h e w'))"
        using assms(2) [of e] by (simp add: posts_def)
      ultimately show ?thesis using Pair Inl by (simp add: io_catch_def)
    qed
  qed
  with g show ?thesis by (simp add: posts_def)
qed

lemma posts_upload_and_send: "posts u (upload_and_send env c u mediaUrl buffer)"
  unfolding upload_and_send_def Let_def
  by (intro posts_catch posts_or_throws_bind posts_imp posts_sendViaWebhook_then
      posts_bind_after never_throws_host_imageUrl growing_intros)

lemma posts_image_fallback: "posts u (image_fallback env c u mediaUrl)"
  unfolding image_fallback_def
  by (intro posts_catch posts_or_throws_bind posts_imp posts_sendViaWebhook_then
      posts_upload_and_send growing_intros)

lemma posts_webhook_fallback: "posts u (webhook_fallback env c u mediaUrl)"
  unfolding webhook_fallback_def Let_def
  by (auto intro!: posts_sendViaWebhook_then posts_image_fallback growing_intros)

lemma sendMedia_quota_entry:
  assumes "channels_feishu cfg = Some feishuCfg"
    and "ext_normalizeFeishuTarget env to = Some c" and "c \<noteq> []"
    and "ext_sendMediaFeishu env (trace w @ [SendMediaFeishu to mediaUrl]) = Inl error"
    and "isQuotaError error"
    and "resolved_webhookUrl env feishuCfg c = Some u" and "u \<noteq> []"
  shows "sendMediaFeishuWithFallback env cfg to mediaUrl w =
           webhook_fallback env c u mediaUrl (w\<lparr>trace := trace w @ [SendMediaFeishu to mediaUrl]\<rparr>)"
  using assms
  by (simp add: sendMediaFeishuWithFallback_def io_catch_def io_call_def Let_def)

text \<open>
  C1. When the platform send fails with a quota error and a webhook URL is resolved for
  the normalized target, the trace holds at least one more POST to that webhook URL
  when \<open>sendMediaFeishuWithFallback\<close> ends than when it began, whatever the outside
  world answers to any of the calls (file system, download, platform upload, image
  hosts, the webhook itself) and whether the function returns or throws: no path ends
  without a call of \<open>sendViaWebhook\<close>.
\<close>

theorem fallback_attempts_webhook:
  assumes "channels_feishu cfg = Some feishuCfg"
    and "ext_normalizeFeishuTarget env to = Some c" and "c \<noteq> []"
    and "ext_sendMediaFeishu env (trace w @ [SendMediaFeishu to mediaUrl]) = Inl error"
    and "isQuotaError error"
    and "resolved_webhookUrl env feishuCfg c = Some u" and "u \<noteq> []"
  shows "webhook_posts u w < webhook_posts u (snd (sendMediaFeishuWithFallback env cfg to mediaUrl w))"
proof -
  let ?w1 = "w\<lparr>trace := trace w @ [SendMediaFeishu to mediaUrl]\<rparr>"
  have "webhook_posts u ?w1 < webhook_posts u (snd (webhook_fallback env c u mediaUrl ?w1))"
    using posts_webhook_fallback [of u env c mediaUrl] by (simp add: posts_def)
  moreover have "webhook_posts u ?w1 = webhook_posts u w"
    by (simp add: webhook_posts_def)
  ultimately show ?thesis
    using sendMedia_quota_entry [OF assms] by simp
qed

text \<open>In \<open>base_env\<close> the local file does not exist and the webhook request itself fails:
  the request was made all the same.\<close>

theorem fallback_attempts_webhook_witness:
  "isQuotaError quota_error
   \<and> webhook_posts hook w0 = 0
   \<and> 0 < webhook_posts hook (snd (sendMediaFeishuWithFallback base_env cfg0 ''oc_1'' ''/tmp/a.png'' w0))"
proof -
  have "webhook_posts hook w0
      < webhook_posts hook (snd (sendMediaFeishuWithFallback base_env cfg0 ''oc_1'' ''/tmp/a.png'' w0))"
    by (rule fallback_attempts_webhook [where feishuCfg = "\<lparr>groups = [(''oc_1'', \<lparr>gc_webhookUrl = Some hook\<rparr>)]\<rparr>"
          and c = "''oc_1''" and error = quota_error])
       (simp_all add: cfg0_def base_env_def hook_def isQuotaError_quota_error resolved_webhookUrl_def)
  moreover have "webhook_posts hook w0 = 0" by (simp add: webhook_posts_def w0_def)
  ultimately show ?thesis by (simp add: isQuotaError_quota_error)
qed

text \<open>The extension of a reference.\<close>

lemma extname_image:
  assumes "ch \<noteq> CHR ''/''" and "e \<in> set [''.png'', ''.jpg'', ''.webp'']"
  shows "path_extname (pre @ ch # e) = e"
  using assms by (auto simp: path_extname_def Let_def)

lemma extname_pdf: "path_extname (pre @ ''.pdf'') \<in> {[], ''.pdf''}"
  by (auto simp: path_extname_def Let_def)

lemma isImage_lower:
  "e \<in> set [''.png'', ''.jpg'', ''.webp''] \<Longrightarrow> isImage (toLowerCase e)"
  by (auto simp: isImage_def toLowerCase_def lower_char_def)

lemma not_isImage_pdf: "\<not> isImage (toLowerCase (path_extname (pre @ ''.pdf'')))"
  using extname_pdf [of pre]
  by (auto simp: isImage_def toLowerCase_def lower_char_def)

lemma growing_upload_and_send: "growing (upload_and_send env c u mediaUrl buffer)"
  using posts_upload_and_send [of u env c mediaUrl buffer] by (simp add: posts_def)

lemma growing_image_fallback: "growing (image_fallback env c u mediaUrl)"
  using posts_image_fallback [of u env c mediaUrl] by (simp add: posts_def)

lemma starts_call: "starts_with ev (io_call ev answer)"
  by (simp add: starts_with_def io_call_def Let_def)

lemma starts_bind:
  assumes "starts_with ev m" and "\<And>x. growing (f x)"
  shows "starts_with ev (io_bind m f)"
proof -
  have "\<exists>evs. trace (snd (io_bind m f w)) = trace w @ ev # evs" for w
  proof (cases "m w")
    case (Pair r w')
    from assms(1) obtain evs where 1: "trace (snd (m w)) = trace w @ ev # evs"
      unfolding starts_with_def by blast
    show ?thesis
    proof (cases r)
      case (Inl e)
      with Pair 1 show ?thesis by (simp add: io_bind_def)
    next
      case (Inr x)
      from assms(2) [of x] have "prefix (trace w') (trace (snd (f x w')))"
        by (simp add: growing_def)
      with 1 Pair Inr show ?thesis by (auto simp: io_bind_def prefix_def)
    qed
  qed
  then show ?thesis by (simp add: starts_with_def)
qed

lemma starts_catch:
  assumes "starts_with ev m" and "\<And>e. growing (h e)"
  shows "starts_with ev (io_catch m h)"
proof -
  have "\<exists>evs. trace (snd (io_catch m h w)) = trace w @ ev # evs" for w
  proof (cases "m w")
    case (Pair r w')
    from assms(1) obtain evs where 1: "trace (snd (m w)) = trace w @ ev # evs"
      unfolding starts_with_def by blast
    show ?thesis
    proof (cases r)
      case (Inr x)
      with Pair 1 show ?thesis by (simp add: io_catch_def)
    next
      case (Inl e)
      from assms(2) [of e] have "prefix (trace w') (trace (snd (h e w')))"
        by (simp add: growing_def)
      with 1 Pair Inl show ?thesis by (auto simp: io_catch_def prefix_def)
    qed
  qed
  then show ?thesis by (simp add: starts_with_def)
qed

lemma starts_acquire_buffer:
  "starts_with (acquisition_event env mediaUrl) (acquire_buffer env mediaUrl)"
  unfolding acquire_buffer_def acquisition_event_def Let_def
  by (auto intro!: starts_bind starts_call growing_intros)

lemma starts_upload_and_send:
  "starts_with (UploadImageFeishu buffer) (upload_and_send env c u mediaUrl buffer)"
  unfolding upload_and_send_def Let_def
  by (intro starts_catch starts_bind starts_call growing_intros)

lemma starts_image_fallback:
  "starts_with (acquisition_event env mediaUrl) (image_fallback env c u mediaUrl)"
  unfolding image_fallback_def
  by (intro starts_catch starts_bind starts_acquire_buffer growing_upload_and_send growing_intros)

lemma catch_bind_after:
  "m w = (Inr x, w2) \<Longrightarrow> io_catch (io_bind m f) h w = io_catch (f x) h w2"
  by (simp add: io_catch_def io_bind_def)

lemma image_fallback_events:
  "(\<exists>evs. trace (snd (image_fallback env c u mediaUrl w))
            = trace w @ acquisition_event env mediaUrl # evs)
   \<and> (\<forall>buffer w2. acquire_buffer env mediaUrl w = (Inr buffer, w2) \<longrightarrow>
        (\<exists>evs. trace (snd (image_fallback env c u mediaUrl w))
                 = trace w2 @ UploadImageFeishu buffer # evs))"
proof (intro conjI allI impI)
  show "\<exists>evs. trace (snd (image_fallback env c u mediaUrl w))
            = trace w @ acquisition_event env mediaUrl # evs"
    using starts_image_fallback unfolding starts_with_def by blast
next
  fix buffer w2
  assume acq: "acquire_buffer env mediaUrl w = (Inr buffer, w2)"
  let ?h = "\<lambda>outerError.
          io_bind (sendViaWebhook env
                     \<lparr>wp_webhookUrl = u, wp_text = link_prefix @ mediaUrl,
                      wp_mentions = None, wp_imageKey = None\<rparr>)
            (\<lambda>_. io_return (webhook_sent c))"
  have "starts_with (UploadImageFeishu buffer)
          (io_catch (upload_and_send env c u mediaUrl buffer) ?h)"
    by (intro starts_catch starts_upload_and_send growing_intros)
  moreover have "image_fallback env c u mediaUrl w
      = io_catch (upload_and_send env c u mediaUrl buffer) ?h w2"
    unfolding image_fallback_def using acq by (rule catch_bind_after)
  ultimately show "\<exists>evs. trace (snd (image_fallback env c u mediaUrl w))
                 = trace w2 @ UploadImageFeishu buffer # evs"
    unfolding starts_with_def by simp
qed

text \<open>The entry of the fallback without a webhook URL.\<close>

lemma sendMedia_no_webhook:
  assumes "channels_feishu cfg = Some feishuCfg"
    and "ext_normalizeFeishuTarget env to = Some c" and "c \<noteq> []"
    and "ext_sendMediaFeishu env (trace w @ [SendMediaFeishu to mediaUrl]) = Inl error"
    and "isQuotaError error"
    and "\<not> truthy_str (resolved_webhookUrl env feishuCfg c)"
  shows "sendMediaFeishuWithFallback env cfg to mediaUrl w =
           (Inl (new_Error (no_webhook_message error c)),
            w\<lparr>trace := trace w @ [SendMediaFeishu to mediaUrl]\<rparr>)"
  using assms
  by (cases "resolved_webhookUrl env feishuCfg c")
     (simp_all add: sendMediaFeishuWithFallback_def io_catch_def io_call_def io_throw_def Let_def)

text \<open>
  C4. When the platform send fails with a quota error and no webhook URL is resolved
  for the normalized target (none, or an empty one), \<open>sendMediaFeishuWithFallback\<close>
  throws an \<open>Error\<close> whose message holds the normalized target and the configuration
  path \<open>channels.feishu.groups["<target>"].webhookUrl\<close>; the only call it has made is
  the platform send: no webhook request, no download, no upload.
\<close>

theorem no_webhook_configuration_error:
  assumes "channels_feishu cfg = Some feishuCfg"
    and "ext_normalizeFeishuTarget env to = Some c" and "c \<noteq> []"
    and "ext_sendMediaFeishu env (trace w @ [SendMediaFeishu to mediaUrl]) = Inl error"
    and "isQuotaError error"
    and "\<not> truthy_str (resolved_webhookUrl env feishuCfg c)"
  shows "sendMediaFeishuWithFallback env cfg to mediaUrl w =
           (Inl (JError ''Error''
                  (''Feishu API quota exceeded ('' @ js_String error
                   @ ''). No webhook configured for fallback. ''
                   @ ''Add webhookUrl to channels.feishu.groups['' @ [CHR 0x22] @ c @ [CHR 0x22]
                   @ ''].webhookUrl in config.'')),
            w\<lparr>trace := trace w @ [SendMediaFeishu to mediaUrl]\<rparr>)
         \<and> contains_text (no_webhook_message error c) c
         \<and> contains_text (no_webhook_message error c)
              (''channels.feishu.groups['' @ [CHR 0x22] @ c @ [CHR 0x22] @ ''].webhookUrl'')"
proof (intro conjI)
  show "sendMediaFeishuWithFallback env cfg to mediaUrl w =
           (Inl (JError ''Error''
                  (''Feishu API quota exceeded ('' @ js_String error
                   @ ''). No webhook configured for fallback. ''
                   @ ''Add webhookUrl to channels.feishu.groups['' @ [CHR 0x22] @ c @ [CHR 0x22]
                   @ ''].webhookUrl in config.'')),
            w\<lparr>trace := trace w @ [SendMediaFeishu to mediaUrl]\<rparr>)"
    using sendMedia_no_webhook [OF assms] by (simp add: new_Error_def no_webhook_message_def)
  have "no_webhook_message error c =
      (''Feishu API quota exceeded ('' @ js_String error
         @ ''). No webhook configured for fallback. ''
         @ ''Add webhookUrl to channels.feishu.groups['' @ [CHR 0x22]) @ c
       @ ([CHR 0x22] @ ''].webhookUrl in config.'')"
    by (simp add: no_webhook_message_def)
  then show "contains_text (no_webhook_message error c) c"
    unfolding contains_text_def by blast
  have "no_webhook_message error c =
      (''Feishu API quota exceeded ('' @ js_String error
         @ ''). No webhook configured for fallback. '' @ ''Add webhookUrl to '')
       @ (''channels.feishu.groups['' @ [CHR 0x22] @ c @ [CHR 0x22] @ ''].webhookUrl'')
       @ '' in config.''"
    by (simp add: no_webhook_message_def)
  then show "contains_text (no_webhook_message error c)
              (''channels.feishu.groups['' @ [CHR 0x22] @ c @ [CHR 0x22] @ ''].webhookUrl'')"
    unfolding contains_text_def by blast
qed

text \<open>The group \<open>oc_1\<close> has no entry in the configuration.\<close>

theorem no_webhook_configuration_error_witness:
  "isQuotaError quota_error
   \<and> sendMediaFeishuWithFallback base_env cfg_no_webhook ''oc_1'' ''/tmp/a.png'' w0 =
       (Inl (JError ''Error''
              (''Feishu API quota exceeded (Error: Request failed with status code 429). ''
               @ ''No webhook configured for fallback. ''
               @ ''Add webhookUrl to channels.feishu.groups['' @ [CHR 0x22] @ ''oc_1'' @ [CHR 0x22]
               @ ''].webhookUrl in config.'')),
        \<lparr>trace = [SendMediaFeishu ''oc_1'' ''/tmp/a.png''], sentTypingIndicators = {}\<rparr>)"
proof -
  have "sendMediaFeishuWithFallback base_env cfg_no_webhook ''oc_1'' ''/tmp/a.png'' w0 =
       (Inl (JError ''Error''
              (''Feishu API quota exceeded ('' @ js_String quota_error
                   @ ''). No webhook configured for fallback. ''
                   @ ''Add webhookUrl to channels.feishu.groups['' @ [CHR 0x22] @ ''oc_1'' @ [CHR 0x22]
                   @ ''].webhookUrl in config.'')),
        w0\<lparr>trace := trace w0 @ [SendMediaFeishu ''oc_1'' ''/tmp/a.png'']\<rparr>)"
    using no_webhook_configuration_error [of cfg_no_webhook "\<lparr>groups = []\<rparr>" base_env "''oc_1''" "''oc_1''"
        w0 "''/tmp/a.png''" quota_error]
    by (simp add: cfg_no_webhook_def base_env_def isQuotaError_quota_error resolved_webhookUrl_def)
  with isQuotaError_quota_error show ?thesis
    by (simp add: w0_def quota_error_def new_Error_def)
qed

text \<open>
  C9. The claim is that a \<open>file://\<close> prefix is stripped, so that such a reference
  resolves to the local file it names. On the code the reference
  \<open>file:///tmp/a.png\<close> begins with neither \<open>/\<close> nor \<open>~\<close> nor a drive letter, so it is not
  a local path: the line that strips \<open>file://\<close> is not reached, and the one call of the
  acquisition is \<open>fetch\<close> of the unchanged reference.
\<close>

theorem file_url_fetched_as_remote:
  "\<not> isLocalPath ''file:///tmp/a.png''
   \<and> snd (acquire_buffer env ''file:///tmp/a.png'' w)
       = w\<lparr>trace := trace w @ [HttpGet ''file:///tmp/a.png'']\<rparr>"
proof -
  have 1: "\<not> isLocalPath ''file:///tmp/a.png''"
    by (simp add: isLocalPath_def startsWith_def)
  then show ?thesis
    by (simp add: acquire_buffer_def io_bind_def io_call_def io_throw_def of_result_def
        io_return_def Let_def split: sum.splits)
qed

lemma webhook_fallback_image:
  assumes "ch \<noteq> CHR ''/''" and "e \<in> set [''.png'', ''.jpg'', ''.webp'']"
  shows "webhook_fallback env c u (pre @ ch # e) = image_fallback env c u (pre @ ch # e)"
  using extname_image [OF assms, of pre] isImage_lower [OF assms(2)]
  by (simp add: webhook_fallback_def Let_def)

lemma webhook_fallback_pdf:
  "webhook_fallback env c u (pre @ ''.pdf'') =
     io_bind (sendViaWebhook env
                \<lparr>wp_webhookUrl = u, wp_text = link_prefix @ pre @ ''.pdf'',
                 wp_mentions = None, wp_imageKey = None\<rparr>)
       (\<lambda>_. io_return (webhook_sent c))"
  using not_isImage_pdf [of pre]
  by (simp add: webhook_fallback_def Let_def)

text \<open>
  C8, amended. After a quota error of the platform send, with a webhook URL resolved:
  a reference that ends in \<open>.png\<close>, \<open>.jpg\<close> or \<open>.webp\<close>, with a character other than \<open>/\<close>
  before that ending, is treated as an image: the call after the platform send is the
  first call of the acquisition (\<open>fs.existsSync\<close> of the resolved path for a local
  reference, \<open>fetch\<close> of the reference otherwise), and when the acquisition yields a
  buffer the next call is the platform upload of that buffer. A reference that ends in
  \<open>.pdf\<close> is sent as the plain link through \<open>sendViaWebhook\<close>: that request is the only
  call after the platform send, and the result is \<open>webhook-sent\<close> when the send succeeds
  and the error of \<open>sendViaWebhook\<close> otherwise.
\<close>

theorem media_classification:
  assumes "channels_feishu cfg = Some feishuCfg"
    and "ext_normalizeFeishuTarget env to = Some c" and "c \<noteq> []"
    and "ext_sendMediaFeishu env (trace w @ [SendMediaFeishu to mediaUrl]) = Inl error"
    and "isQuotaError error"
    and "resolved_webhookUrl env feishuCfg c = Some u" and "u \<noteq> []"
  shows "((\<exists>pre ch e. mediaUrl = pre @ ch # e \<and> ch \<noteq> CHR ''/''
             \<and> e \<in> set [''.png'', ''.jpg'', ''.webp''])
          \<longrightarrow> (\<exists>evs. trace (snd (sendMediaFeishuWithFallback env cfg to mediaUrl w))
                      = trace w @ SendMediaFeishu to mediaUrl
                          # acquisition_event env mediaUrl # evs)
              \<and> (\<forall>buffer w2.
                    acquire_buffer env mediaUrl (w\<lparr>trace := trace w @ [SendMediaFeishu to mediaUrl]\<rparr>)
                      = (Inr buffer, w2)
                    \<longrightarrow> (\<exists>evs. trace (snd (sendMediaFeishuWithFallback env cfg to mediaUrl w))
                                = trace w2 @ UploadImageFeishu buffer # evs)))
         \<and> (suffix ''.pdf'' mediaUrl
          \<longrightarrow> sendMediaFeishuWithFallback env cfg to mediaUrl w
                = (case sendViaWebhook env
                         \<lparr>wp_webhookUrl = u, wp_text = link_prefix @ mediaUrl,
                          wp_mentions = None, wp_imageKey = None\<rparr>
                         (w\<lparr>trace := trace w @ [SendMediaFeishu to mediaUrl]\<rparr>) of
                     (Inl e, w') \<Rightarrow> (Inl e, w')
                   | (Inr x, w') \<Rightarrow> (Inr (webhook_sent c), w'))
              \<and> trace (snd (sendMediaFeishuWithFallback env cfg to mediaUrl w))
                = trace w @ [SendMediaFeishu to mediaUrl,
                             HttpPostJson u (webhook_payload (link_prefix @ mediaUrl))])"
proof (intro conjI impI)
  let ?w1 = "w\<lparr>trace := trace w @ [SendMediaFeishu to mediaUrl]\<rparr>"
  note entry = sendMedia_quota_entry [OF assms]
  {
    assume "\<exists>pre ch e. mediaUrl = pre @ ch # e \<and> ch \<noteq> CHR ''/''
             \<and> e \<in> set [''.png'', ''.jpg'', ''.webp'']"
    then obtain pre ch e where m: "mediaUrl = pre @ ch # e" and ch: "ch \<noteq> CHR ''/''"
      and e: "e \<in> set [''.png'', ''.jpg'', ''.webp'']" by blast
    have img: "sendMediaFeishuWithFallback env cfg to mediaUrl w
        = image_fallback env c u mediaUrl ?w1"
      using entry webhook_fallback_image [OF ch e, of env c u pre] m by simp
    note ev = image_fallback_events [of env c u mediaUrl ?w1]
    from ev obtain evs where "trace (snd (image_fallback env c u mediaUrl ?w1))
        = trace ?w1 @ acquisition_event env mediaUrl # evs" by blast
    with img show "\<exists>evs. trace (snd (sendMediaFeishuWithFallback env cfg to mediaUrl w))
                      = trace w @ SendMediaFeishu to mediaUrl
                          # acquisition_event env mediaUrl # evs"
      by simp
    from ev img show "\<forall>buffer w2.
                    acquire_buffer env mediaUrl ?w1 = (Inr buffer, w2)
                    \<longrightarrow> (\<exists>evs. trace (snd (sendMediaFeishuWithFallback env cfg to mediaUrl w))
                                = trace w2 @ UploadImageFeishu buffer # evs)"
      by simp
  }
  {
    assume "suffix ''.pdf'' mediaUrl"
    then obtain pre where m: "mediaUrl = pre @ ''.pdf''" by (auto simp: suffix_def)
    let ?p = "\<lparr>wp_webhookUrl = u, wp_text = link_prefix @ mediaUrl,
                          wp_mentions = None, wp_imageKey = None\<rparr>"
    have pdf: "sendMediaFeishuWithFallback env cfg to mediaUrl w
        = io_bind (sendViaWebhook env ?p) (\<lambda>_. io_return (webhook_sent c)) ?w1"
      using entry webhook_fallback_pdf [of env c u pre] m by simp
    then show "sendMediaFeishuWithFallback env cfg to mediaUrl w
                = (case sendViaWebhook env ?p ?w1 of
                     (Inl e, w') \<Rightarrow> (Inl e, w')
                   | (Inr x, w') \<Rightarrow> (Inr (webhook_sent c), w'))"
      by (simp add: io_bind_def io_return_def)
    have "snd (io_bind (sendViaWebhook env ?p) (\<lambda>_. io_return (webhook_sent c)) ?w1)
        = snd (sendViaWebhook env ?p ?w1)"
      by (simp add: io_bind_def io_return_def split: prod.splits sum.splits)
    with pdf show "trace (snd (sendMediaFeishuWithFallback env cfg to mediaUrl w))
                = trace w @ [SendMediaFeishu to mediaUrl,
                             HttpPostJson u (webhook_payload (link_prefix @ mediaUrl))]"
      by (simp add: sendViaWebhook_world card_content_def)
  }
qed

text \<open>
  C8, as stated, fails for a reference whose last segment is the bare ending:
  \<open>/tmp/.png\<close> ends in \<open>.png\<close>, its \<open>path.extname\<close> is empty, and the orchestrator sends
  it as a plain link without acquiring anything, although the file exists.
\<close>

theorem dotfile_png_counterexample:
  "suffix ''.png'' ''/tmp/.png''
   \<and> sendMediaFeishuWithFallback webhook_up_env cfg0 ''oc_1'' ''/tmp/.png'' w0
       = (Inr (webhook_sent ''oc_1''),
          \<lparr>trace = [SendMediaFeishu ''oc_1'' ''/tmp/.png'',
                     HttpPostJson hook (webhook_payload (link_prefix @ ''/tmp/.png''))],
            sentTypingIndicators = {}\<rparr>)"
proof -
  have 1: "suffix ''.png'' ''/tmp/.png''"
    by (simp add: suffix_def)
  have 2: "path_extname ''/tmp/.png'' = []"
    by (simp add: path_extname_def Let_def)
  have "sendMediaFeishuWithFallback webhook_up_env cfg0 ''oc_1'' ''/tmp/.png'' w0
      = webhook_fallback webhook_up_env ''oc_1'' hook ''/tmp/.png''
          (w0\<lparr>trace := trace w0 @ [SendMediaFeishu ''oc_1'' ''/tmp/.png'']\<rparr>)"
    by (rule sendMedia_quota_entry [where feishuCfg = "\<lparr>groups = [(''oc_1'', \<lparr>gc_webhookUrl = Some hook\<rparr>)]\<rparr>"
          and error = quota_error])
       (simp_all add: cfg0_def webhook_up_env_def base_env_def hook_def isQuotaError_quota_error
          resolved_webhookUrl_def)
  also have "\<dots> = (Inr (webhook_sent ''oc_1''),
          \<lparr>trace = [SendMediaFeishu ''oc_1'' ''/tmp/.png'',
                     HttpPostJson hook (webhook_payload (link_prefix @ ''/tmp/.png''))],
            sentTypingIndicators = {}\<rparr>)"
    by (simp add: webhook_fallback_def 2 isImage_def toLowerCase_def sendViaWebhook_def
        card_content_def io_bind_def io_call_def io_return_def io_throw_def of_result_def
        webhook_up_env_def base_env_def answer_last_def webhook_ok_response_def w0_def Let_def)
  finally show ?thesis using 1 by simp
qed

text \<open>The file exists, the platform upload and the webhook answer: \<open>/tmp/a.png\<close> is read
  and uploaded, \<open>/tmp/a.pdf\<close> is sent as a link.\<close>

theorem media_classification_witness:
  "isQuotaError quota_error
   \<and> (\<exists>evs. trace (snd (sendMediaFeishuWithFallback webhook_up_env cfg0 ''oc_1'' ''/tmp/a.png'' w0))
              = SendMediaFeishu ''oc_1'' ''/tmp/a.png'' # FsExistsSync ''/tmp/a.png''
                  # FsReadFileSync ''/tmp/a.png'' # UploadImageFeishu ''PNG'' # evs)
   \<and> trace (snd (sendMediaFeishuWithFallback webhook_up_env cfg0 ''oc_1'' ''/tmp/a.pdf'' w0))
       = [SendMediaFeishu ''oc_1'' ''/tmp/a.pdf'',
          HttpPostJson hook (webhook_payload (link_prefix @ ''/tmp/a.pdf''))]"
proof -
  let ?fc = "\<lparr>groups = [(''oc_1'', \<lparr>gc_webhookUrl = Some hook\<rparr>)]\<rparr>"
  have A: "((\<exists>pre ch e. m = pre @ ch # e \<and> ch \<noteq> CHR ''/''
             \<and> e \<in> set [''.png'', ''.jpg'', ''.webp''])
          \<longrightarrow> (\<exists>evs. trace (snd (sendMediaFeishuWithFallback webhook_up_env cfg0 ''oc_1'' m w0))
                      = trace w0 @ SendMediaFeishu ''oc_1'' m
                          # acquisition_event webhook_up_env m # evs)
              \<and> (\<forall>buffer w2.
                    acquire_buffer webhook_up_env m (w0\<lparr>trace := trace w0 @ [SendMediaFeishu ''oc_1'' m]\<rparr>)
                      = (Inr buffer, w2)
                    \<longrightarrow> (\<exists>evs. trace (snd (sendMediaFeishuWithFallback webhook_up_env cfg0 ''oc_1'' m w0))
                                = trace w2 @ UploadImageFeishu buffer # evs)))
         \<and> (suffix ''.pdf'' m
          \<longrightarrow> sendMediaFeishuWithFallback webhook_up_env cfg0 ''oc_1'' m w0
                = (case sendViaWebhook webhook_up_env
                         \<lparr>wp_webhookUrl = hook, wp_text = link_prefix @ m,
                          wp_mentions = None, wp_imageKey = None\<rparr>
                         (w0\<lparr>trace := trace w0 @ [SendMediaFeishu ''oc_1'' m]\<rparr>) of
                     (Inl e, w') \<Rightarrow> (Inl e, w')
                   | (Inr x, w') \<Rightarrow> (Inr (webhook_sent ''oc_1''), w'))
              \<and> trace (snd (sendMediaFeishuWithFallback webhook_up_env cfg0 ''oc_1'' m w0))
                = trace w0 @ [SendMediaFeishu ''oc_1'' m,
                             HttpPostJson hook (webhook_payload (link_prefix @ m))])" for m
    by (rule media_classification [where feishuCfg = ?fc and error = quota_error])
       (simp_all add: cfg0_def webhook_up_env_def base_env_def hook_def isQuotaError_quota_error
          resolved_webhookUrl_def)
  have png: "\<exists>pre ch e. ''/tmp/a.png'' = pre @ ch # e \<and> ch \<noteq> CHR ''/''
             \<and> e \<in> set [''.png'', ''.jpg'', ''.webp'']"
    by (rule exI [of _ "''/tmp/''"], rule exI [of _ "CHR ''a''"], rule exI [of _ "''.png''"]) simp
  have acq: "acquire_buffer webhook_up_env ''/tmp/a.png''
        (w0\<lparr>trace := trace w0 @ [SendMediaFeishu ''oc_1'' ''/tmp/a.png'']\<rparr>)
      = (Inr ''PNG'', w0\<lparr>trace := [SendMediaFeishu ''oc_1'' ''/tmp/a.png'',
            FsExistsSync ''/tmp/a.png'', FsReadFileSync ''/tmp/a.png'']\<rparr>)"
    by (simp add: acquire_buffer_def isLocalPath_def startsWith_def local_filePath_def
        js_replace_def io_bind_def io_call_def webhook_up_env_def base_env_def w0_def Let_def)
  from A [of "''/tmp/a.png''"] png acq
  have "\<exists>evs. trace (snd (sendMediaFeishuWithFallback webhook_up_env cfg0 ''oc_1'' ''/tmp/a.png'' w0))
              = trace (w0\<lparr>trace := [SendMediaFeishu ''oc_1'' ''/tmp/a.png'',
            FsExistsSync ''/tmp/a.png'', FsReadFileSync ''/tmp/a.png'']\<rparr>)
                @ UploadImageFeishu ''PNG'' # evs"
    by blast
  then have 1: "\<exists>evs. trace (snd (sendMediaFeishuWithFallback webhook_up_env cfg0 ''oc_1'' ''/tmp/a.png'' w0))
              = SendMediaFeishu ''oc_1'' ''/tmp/a.png'' # FsExistsSync ''/tmp/a.png''
                  # FsReadFileSync ''/tmp/a.png'' # UploadImageFeishu ''PNG'' # evs"
    by simp
  have "suffix ''.pdf'' ''/tmp/a.pdf''" by (simp add: suffix_def)
  with A [of "''/tmp/a.pdf''"]
  have "trace (snd (sendMediaFeishuWithFallback webhook_up_env cfg0 ''oc_1'' ''/tmp/a.pdf'' w0))
       = trace w0 @ [SendMediaFeishu ''oc_1'' ''/tmp/a.pdf'',
          HttpPostJson hook (webhook_payload (link_prefix @ ''/tmp/a.pdf''))]"
    by blast
  then have 2: "trace (snd (sendMediaFeishuWithFallback webhook_up_env cfg0 ''oc_1'' ''/tmp/a.pdf'' w0))
       = [SendMediaFeishu ''oc_1'' ''/tmp/a.pdf'',
          HttpPostJson hook (webhook_payload (link_prefix @ ''/tmp/a.pdf''))]"
    by (simp add: w0_def)
  from 1 2 isQuotaError_quota_error show ?thesis by blast
qed

subsection \<open>Typing indicator tracker\<close>

lemma sendViaWebhook_registry:
  "sentTypingIndicators (snd (sendViaWebhook env params w)) = sentTypingIndicators w"
  by (simp add: sendViaWebhook_world)

lemma add_registered:
  "m \<in> sentTypingIndicators w \<Longrightarrow> addTypingIndicator env cfg m c w = (Inr (not_added m), w)"
  by (simp add: addTypingIndicator_def not_added_def)

lemma webhook_ack_registry:
  "sentTypingIndicators (snd (webhook_ack env feishuCfg m c err w)) =
     (if isQuotaError err \<and>
         (case c of
             None \<Rightarrow> False
           | Some chat \<Rightarrow>
               chat \<noteq> [] \<and>
               (case ext_normalizeFeishuTarget env chat of
                  None \<Rightarrow> False
                | Some n \<Rightarrow>
                    n \<noteq> [] \<and>
                    (case resolved_webhookUrl env feishuCfg n of
                       None \<Rightarrow> False
                     | Some u \<Rightarrow>
                         u \<noteq> [] \<and>
                         fst (sendViaWebhook env
                                \<lparr>wp_webhookUrl = u, wp_text = ack_glyph, wp_mentions = None,
                                 wp_imageKey = None\<rparr> w) = Inr ())))
      then insert m (sentTypingIndicators w) else sentTypingIndicators w)"
proof -
  have send: "sentTypingIndicators (snd (io_catch
                                 (io_bind (sendViaWebhook env p)
                                    (\<lambda>_. io_bind (registry_add m)
                                       (\<lambda>_. io_return (Some st))))
                                 (\<lambda>webhookErr. io_return None) w))
      = (if fst (sendViaWebhook env p w) = Inr () then insert m (sentTypingIndicators w)
         else sentTypingIndicators w)" for p st
  proof (cases "sendViaWebhook env p w")
    case (Pair r w')
    then have "sentTypingIndicators w' = sentTypingIndicators w"
      using sendViaWebhook_registry [of env p w] by simp
    with Pair show ?thesis
      by (cases r) (simp_all add: io_catch_def io_bind_def io_return_def registry_add_def)
  qed
  have ret: "snd (io_return x v) = v" for x :: "TypingIndicatorState option" and v
    by (simp add: io_return_def)
  show ?thesis
    by (auto simp: webhook_ack_def send ret split: option.splits)
qed

lemma add_registry:
  assumes "m \<notin> sentTypingIndicators w"
  shows "sentTypingIndicators (snd (addTypingIndicator env cfg m c w)) =
           (if add_succeeds env cfg m c w then insert m (sentTypingIndicators w)
            else sentTypingIndicators w)"
proof (cases "channels_feishu cfg")
  case None
  with assms show ?thesis by (simp add: addTypingIndicator_def add_succeeds_def)
next
  case (Some feishuCfg)
  let ?w1 = "w\<lparr>trace := trace w @ [ReactionCreate m TYPING_EMOJI]\<rparr>"
  show ?thesis
  proof (cases "ext_reaction_create env (trace w @ [ReactionCreate m TYPING_EMOJI])")
    case (Inr rid)
    with assms Some show ?thesis
      by (simp add: addTypingIndicator_def add_succeeds_def primary_add_ok_def io_catch_def
          io_bind_def io_call_def io_return_def registry_add_def Let_def)
  next
    case (Inl err)
    have "snd (addTypingIndicator env cfg m c w) = snd (webhook_ack env feishuCfg m c err ?w1)"
      using assms Some Inl
      by (simp add: addTypingIndicator_def io_catch_def io_bind_def io_call_def io_return_def
          Let_def split: prod.splits sum.splits option.splits)
    then show ?thesis
      using assms Some Inl
      by (simp add: webhook_ack_registry add_succeeds_def primary_add_ok_def webhook_add_ok_def)
  qed
qed

text \<open>
  C7. A call of \<open>addTypingIndicator\<close> for a registered message returns a state without
  reaction id and leaves the world as it is: no call of the platform, no webhook
  request. A call that succeeds, through the platform or through the webhook,
  registers the message; any other call leaves the registry as it was, so a failed
  attempt can be tried again. Hence after a successful call, in every later world
  (one whose registry holds what the call left), a call for the same message, with
  whatever configuration, chat id and environment, is such a no-op.
\<close>

theorem typing_indicator_at_most_once:
  "(m \<in> sentTypingIndicators w
      \<longrightarrow> addTypingIndicator env cfg m c w = (Inr (not_added m), w))
   \<and> (add_succeeds env cfg m c w
      \<longrightarrow> sentTypingIndicators (snd (addTypingIndicator env cfg m c w))
            = insert m (sentTypingIndicators w))
   \<and> (\<not> add_succeeds env cfg m c w
      \<longrightarrow> sentTypingIndicators (snd (addTypingIndicator env cfg m c w))
            = sentTypingIndicators w)
   \<and> (add_succeeds env cfg m c w
        \<and> sentTypingIndicators (snd (addTypingIndicator env cfg m c w)) \<subseteq> sentTypingIndicators w2
      \<longrightarrow> addTypingIndicator env2 cfg2 m c2 w2 = (Inr (not_added m), w2))"
proof (intro conjI impI)
  show "addTypingIndicator env cfg m c w = (Inr (not_added m), w)"
    if "m \<in> sentTypingIndicators w"
    using that by (rule add_registered)
  show ok: "sentTypingIndicators (snd (addTypingIndicator env cfg m c w))
            = insert m (sentTypingIndicators w)"
    if "add_succeeds env cfg m c w"
    using that add_registry [of m w env cfg c] by (simp add: add_succeeds_def)
  show "sentTypingIndicators (snd (addTypingIndicator env cfg m c w)) = sentTypingIndicators w"
    if "\<not> add_succeeds env cfg m c w"
  proof (cases "m \<in> sentTypingIndicators w")
    case True
    then show ?thesis by (simp add: add_registered)
  next
    case False
    with that show ?thesis by (simp add: add_registry)
  qed
  show "addTypingIndicator env2 cfg2 m c2 w2 = (Inr (not_added m), w2)"
    if "add_succeeds env cfg m c w
        \<and> sentTypingIndicators (snd (addTypingIndicator env cfg m c w)) \<subseteq> sentTypingIndicators w2"
  proof -
    from that ok have "m \<in> sentTypingIndicators w2" by auto
    then show ?thesis by (rule add_registered)
  qed
qed

text \<open>A success through the platform followed by a second call; a success through the
  webhook; a failure (quota error, and the webhook request fails too), which registers
  nothing.\<close>

theorem typing_indicator_at_most_once_witness:
  "add_succeeds reaction_up_env cfg0 ''om_1'' None w0
   \<and> sentTypingIndicators (snd (addTypingIndicator reaction_up_env cfg0 ''om_1'' None w0)) = {''om_1''}
   \<and> addTypingIndicator base_env cfg0 ''om_1'' (Some ''oc_1'')
         (snd (addTypingIndicator reaction_up_env cfg0 ''om_1'' None w0))
       = (Inr (not_added ''om_1''), snd (addTypingIndicator reaction_up_env cfg0 ''om_1'' None w0))
   \<and> add_succeeds webhook_up_env cfg0 ''om_2'' (Some ''oc_1'') w0
   \<and> sentTypingIndicators (snd (addTypingIndicator webhook_up_env cfg0 ''om_2'' (Some ''oc_1'') w0))
       = {''om_2''}
   \<and> \<not> add_succeeds base_env cfg0 ''om_3'' (Some ''oc_1'') w0
   \<and> sentTypingIndicators (snd (addTypingIndicator base_env cfg0 ''om_3'' (Some ''oc_1'') w0)) = {}
   \<and> addTypingIndicator reaction_up_env cfg0 ''om_4'' None
         \<lparr>trace = [], sentTypingIndicators = {''om_4''}\<rparr>
       = (Inr (not_added ''om_4''), \<lparr>trace = [], sentTypingIndicators = {''om_4''}\<rparr>)"
proof -
  let ?w1 = "snd (addTypingIndicator reaction_up_env cfg0 ''om_1'' None w0)"
  have ok1: "add_succeeds reaction_up_env cfg0 ''om_1'' None w0"
    by (simp add: add_succeeds_def primary_add_ok_def reaction_up_env_def base_env_def cfg0_def
        w0_def)
  note T1 = typing_indicator_at_most_once [of "''om_1''" w0 reaction_up_env cfg0 None ?w1 base_env
      cfg0 "Some ''oc_1''"]
  from T1 ok1 have r1: "sentTypingIndicators ?w1 = {''om_1''}"
    by (simp add: w0_def)
  from T1 ok1 have again: "addTypingIndicator base_env cfg0 ''om_1'' (Some ''oc_1'') ?w1
       = (Inr (not_added ''om_1''), ?w1)"
    by blast
  have send: "fst (sendViaWebhook webhook_up_env
                \<lparr>wp_webhookUrl = ''https://hook.example/1'', wp_text = ack_glyph,
                 wp_mentions = None, wp_imageKey = None\<rparr>
                (w0\<lparr>trace := trace w0 @ [ReactionCreate ''om_2'' TYPING_EMOJI]\<rparr>)) = Inr ()"
    by (simp add: sendViaWebhook_def card_content_def io_bind_def io_call_def io_return_def
        io_throw_def of_result_def webhook_up_env_def base_env_def answer_last_def
        webhook_ok_response_def w0_def Let_def)
  have ok2: "add_succeeds webhook_up_env cfg0 ''om_2'' (Some ''oc_1'') w0"
    using send isQuotaError_quota_error
    by (simp add: add_succeeds_def primary_add_ok_def webhook_add_ok_def resolved_webhookUrl_def
        webhook_up_env_def base_env_def cfg0_def w0_def)
  with typing_indicator_at_most_once [of "''om_2''" w0 webhook_up_env cfg0 "Some ''oc_1''"]
  have r2: "sentTypingIndicators (snd (addTypingIndicator webhook_up_env cfg0 ''om_2'' (Some ''oc_1'') w0))
       = {''om_2''}"
    by (simp add: w0_def)
  have nosend: "fst (sendViaWebhook base_env
                \<lparr>wp_webhookUrl = ''https://hook.example/1'', wp_text = ack_glyph,
                 wp_mentions = None, wp_imageKey = None\<rparr>
                (w0\<lparr>trace := trace w0 @ [ReactionCreate ''om_3'' TYPING_EMOJI]\<rparr>)) \<noteq> Inr ()"
    by (simp add: sendViaWebhook_def card_content_def io_bind_def io_call_def io_return_def
        io_throw_def of_result_def base_env_def w0_def Let_def)
  have no3: "\<not> add_succeeds base_env cfg0 ''om_3'' (Some ''oc_1'') w0"
    using nosend
    by (simp add: add_succeeds_def primary_add_ok_def webhook_add_ok_def resolved_webhookUrl_def
        base_env_def cfg0_def w0_def)
  with typing_indicator_at_most_once [of "''om_3''" w0 base_env cfg0 "Some ''oc_1''"]
  have r3: "sentTypingIndicators (snd (addTypingIndicator base_env cfg0 ''om_3'' (Some ''oc_1'') w0)) = {}"
    by (simp add: w0_def)
  have "''om_4'' \<in> sentTypingIndicators \<lparr>trace = [], sentTypingIndicators = {''om_4''}\<rparr>"
    by simp
  with typing_indicator_at_most_once [of "''om_4''"
      "\<lparr>trace = [], sentTypingIndicators = {''om_4''}\<rparr>" reaction_up_env cfg0 None]
  have r4: "addTypingIndicator reaction_up_env cfg0 ''om_4'' None
         \<lparr>trace = [], sentTypingIndicators = {''om_4''}\<rparr>
       = (Inr (not_added ''om_4''), \<lparr>trace = [], sentTypingIndicators = {''om_4''}\<rparr>)"
    by blast
  from ok1 r1 again ok2 r2 no3 r3 r4 show ?thesis by blast
qed

text \<open>
  C10. \<open>removeTypingIndicator\<close> always resolves and never throws. Without a reaction id
  (none, or an empty one) it leaves the world as it is, making no call; with a reaction
  id and a configured channel it makes the one delete call of the platform, and resolves
  whether that call fails or not. A second call with the same state, after the first,
  resolves as well.
\<close>

theorem removeTypingIndicator_never_throws:
  "fst (removeTypingIndicator env cfg st w) = Inr ()
   \<and> (\<not> truthy_str (reactionId st) \<longrightarrow> snd (removeTypingIndicator env cfg st w) = w)
   \<and> (truthy_str (reactionId st) \<and> channels_feishu cfg \<noteq> None
      \<longrightarrow> snd (removeTypingIndicator env cfg st w)
            = w\<lparr>trace := trace w @ [ReactionDelete (ti_messageId st) (or_empty (reactionId st))]\<rparr>)
   \<and> fst (removeTypingIndicator env cfg st (snd (removeTypingIndicator env cfg st w))) = Inr ()"
proof -
  have 1: "fst (removeTypingIndicator env cfg st v) = Inr ()" for v
    by (simp add: removeTypingIndicator_def io_return_def io_catch_def io_call_def Let_def
        split: option.splits sum.splits)
  have 2: "snd (removeTypingIndicator env cfg st w) = w" if "\<not> truthy_str (reactionId st)"
    using that by (cases "reactionId st") (simp_all add: removeTypingIndicator_def io_return_def)
  have 3: "snd (removeTypingIndicator env cfg st w)
            = w\<lparr>trace := trace w @ [ReactionDelete (ti_messageId st) (or_empty (reactionId st))]\<rparr>"
    if "truthy_str (reactionId st) \<and> channels_feishu cfg \<noteq> None"
    using that
    by (cases "reactionId st")
       (auto simp: removeTypingIndicator_def io_return_def io_catch_def io_call_def Let_def
        split: sum.splits)
  from 1 2 3 show ?thesis by blast
qed

text \<open>In \<open>base_env\<close> the delete call fails with a quota error.\<close>

theorem removeTypingIndicator_never_throws_witness:
  "fst (removeTypingIndicator base_env cfg0
          \<lparr>ti_messageId = ''om_1'', reactionId = Some ''reaction_1'', usedWebhook = None\<rparr> w0) = Inr ()
   \<and> trace (snd (removeTypingIndicator base_env cfg0
          \<lparr>ti_messageId = ''om_1'', reactionId = Some ''reaction_1'', usedWebhook = None\<rparr> w0))
       = [ReactionDelete ''om_1'' ''reaction_1'']
   \<and> snd (removeTypingIndicator base_env cfg0 (not_added ''om_1'') w0) = w0"
proof -
  let ?st = "\<lparr>ti_messageId = ''om_1'', reactionId = Some ''reaction_1'', usedWebhook = None\<rparr>"
  note A = removeTypingIndicator_never_throws [of base_env cfg0 ?st w0]
  note B = removeTypingIndicator_never_throws [of base_env cfg0 "not_added ''om_1''" w0]
  from A have 1: "fst (removeTypingIndicator base_env cfg0 ?st w0) = Inr ()" by blast
  have "truthy_str (reactionId ?st) \<and> channels_feishu cfg0 \<noteq> None"
    by (simp add: cfg0_def)
  with A have "snd (removeTypingIndicator base_env cfg0 ?st w0)
      = w0\<lparr>trace := trace w0 @ [ReactionDelete (ti_messageId ?st) (or_empty (reactionId ?st))]\<rparr>"
    by blast
  then have 2: "trace (snd (removeTypingIndicator base_env cfg0 ?st w0))
       = [ReactionDelete ''om_1'' ''reaction_1'']"
    by (simp add: w0_def)
  have "\<not> truthy_str (reactionId (not_added ''om_1''))"
    by (simp add: not_added_def)
  with B have 3: "snd (removeTypingIndicator base_env cfg0 (not_added ''om_1'') w0) = w0"
    by blast
  from 1 2 3 show ?thesis by blast
qed

subsection \<open>Outbound facade\<close>

text \<open>
  C2. The claim is that a text is delivered at most once for a request, and exactly
  once for a request with a text and no media URL. On the code such a request sends
  the text twice: once by the first statement of \<open>sendMedia\<close> (the text is not blank),
  and once more by its last statement, which sends \<open>text ?? ""\<close> again instead of
  returning the result of the first send.
\<close>

theorem sendMedia_text_only_sends_twice:
  assumes "trim t \<noteq> []" and "\<not> truthy_str mediaUrl"
    and "ext_sendMessageWithFallback env (trace w @ [SendMessageWithFallback to t]) = Inr r"
  shows "trace (snd (sendMedia env cfg to (Some t) mediaUrl w))
           = trace w @ [SendMessageWithFallback to t, SendMessageWithFallback to t]"
  using assms
  by (simp add: sendMedia_def io_bind_def io_call_def io_return_def Let_def
      split: sum.splits prod.splits)

text \<open>The request \<open>{ to: "oc_1", text: "hello" }\<close> without a media URL.\<close>

theorem sendMedia_text_only_sends_twice_witness:
  "trace (snd (sendMedia text_up_env cfg0 ''oc_1'' (Some ''hello'') None w0))
     = [SendMessageWithFallback ''oc_1'' ''hello'', SendMessageWithFallback ''oc_1'' ''hello'']"
proof -
  have "trace (snd (sendMedia text_up_env cfg0 ''oc_1'' (Some ''hello'') None w0))
     = trace w0 @ [SendMessageWithFallback ''oc_1'' ''hello'', SendMessageWithFallback ''oc_1'' ''hello'']"
    by (rule sendMedia_text_only_sends_twice [where r = "\<lparr>messageId = ''om_1'', chatId = ''oc_1''\<rparr>"])
       (simp_all add: trim_def white_space_def strip_all.simps text_up_env_def base_env_def)
  then show ?thesis by (simp add: w0_def)
qed

end
